theory Spec2Isabelle
  imports Complex_Main "HOL-Library.Sublist"
begin

section \<open>Python values, exceptions and string helpers\<close>

text \<open>
  The handlers work on decoded JSON. A decoded value is one of the shapes below; a JSON
  object is an association list with string keys (lookup takes the first binding).
  JSON floats do not occur on any path modelled here and are left out.
\<close>

datatype pyval =
    PNone
  | PBool bool
  | PInt int
  | PStr string
  | PList "pyval list"
  | PDict "(string \<times> pyval) list"

text \<open>
  Every exception of the source is a value. All of them are subclasses of Python's
  \<open>Exception\<close>, so an \<open>except Exception\<close> clause catches each constructor;
  \<open>except ClientError\<close> catches only \<open>ClientError\<close>.
\<close>

datatype error =
    KeyError
  | IndexError
  | TypeError
  | AttributeError
  | ValueError string
  | ClientError string
  | ServiceError string
  | Exception string

text \<open>Python truthiness (\<open>if x\<close>, \<open>not x\<close>, \<open>a or b\<close>).\<close>

fun truthy :: "pyval \<Rightarrow> bool" where
  "truthy PNone = False"
| "truthy (PBool b) = b"
| "truthy (PInt i) = (i \<noteq> 0)"
| "truthy (PStr s) = (s \<noteq> [])"
| "truthy (PList xs) = (xs \<noteq> [])"
| "truthy (PDict kvs) = (kvs \<noteq> [])"

text \<open>\<open>a or b\<close>: the first operand when it is truthy, the second otherwise.\<close>

definition py_or :: "pyval \<Rightarrow> pyval \<Rightarrow> pyval" where
  "py_or a b = (if truthy a then a else b)"

text \<open>\<open>x.get(key, default)\<close>: only a dict has the method.\<close>

fun py_get :: "pyval \<Rightarrow> string \<Rightarrow> pyval \<Rightarrow> error + pyval" where
  "py_get (PDict kvs) k d = (case map_of kvs k of Some v \<Rightarrow> Inr v | None \<Rightarrow> Inr d)"
| "py_get _ k d = Inl AttributeError"

text \<open>\<open>x[key]\<close> with a string key.\<close>

fun py_item :: "pyval \<Rightarrow> string \<Rightarrow> error + pyval" where
  "py_item (PDict kvs) k = (case map_of kvs k of Some v \<Rightarrow> Inr v | None \<Rightarrow> Inl KeyError)"
| "py_item _ k = Inl TypeError"

text \<open>\<open>x[0]\<close>.\<close>

fun py_first :: "pyval \<Rightarrow> error + pyval" where
  "py_first (PList []) = Inl IndexError"
| "py_first (PList (x # xs)) = Inr x"
| "py_first (PStr []) = Inl IndexError"
| "py_first (PStr (c # cs)) = Inr (PStr [c])"
| "py_first (PDict kvs) = Inl KeyError"
| "py_first _ = Inl TypeError"

text \<open>\<open>key in x\<close> for a string key: dict keys, list elements, or substring of a string.\<close>

fun py_contains :: "pyval \<Rightarrow> string \<Rightarrow> error + bool" where
  "py_contains (PDict kvs) k = Inr (k \<in> set (map fst kvs))"
| "py_contains (PList xs) k = Inr (PStr k \<in> set xs)"
| "py_contains (PStr s) k = Inr (sublist k s)"
| "py_contains _ k = Inl TypeError"

text \<open>\<open>for x in v\<close>: the elements of a list, the keys of a dict, the characters of a string.\<close>

fun py_iter :: "pyval \<Rightarrow> error + pyval list" where
  "py_iter (PList xs) = Inr xs"
| "py_iter (PDict kvs) = Inr (map (\<lambda>kv. PStr (fst kv)) kvs)"
| "py_iter (PStr s) = Inr (map (\<lambda>c. PStr [c]) s)"
| "py_iter _ = Inl TypeError"

text \<open>Sequencing of steps that may raise.\<close>

definition bind_err :: "error + 'a \<Rightarrow> ('a \<Rightarrow> error + 'b) \<Rightarrow> error + 'b" where
  "bind_err r f = (case r of Inl e \<Rightarrow> Inl e | Inr v \<Rightarrow> f v)"

text \<open>\<open>s.replace(c, '')\<close> for a one-character \<open>c\<close>: every occurrence is removed.\<close>

definition remove_char :: "char \<Rightarrow> string \<Rightarrow> string" where
  "remove_char c s = filter (\<lambda>x. x \<noteq> c) s"

definition startswith :: "string \<Rightarrow> string \<Rightarrow> bool" where
  "startswith s p = (take (length p) s = p)"

text \<open>Decimal formatting of a natural number (\<open>str(n)\<close>, \<open>{n}\<close> in an f-string).\<close>

definition digit :: "nat \<Rightarrow> char" where
  "digit d = ''0123456789'' ! d"

fun decimal :: "nat \<Rightarrow> string" where
  "decimal n = (if n < 10 then [digit n] else decimal (n div 10) @ [digit (n mod 10)])"

declare decimal.simps [simp del]

text \<open>Zero padding to a minimal width (\<open>%02d\<close>, \<open>{n:03d}\<close>, \<open>%Y\<close>).\<close>

definition zero_pad :: "nat \<Rightarrow> nat \<Rightarrow> string" where
  "zero_pad w n = replicate (w - length (decimal n)) (CHR ''0'') @ decimal n"

section \<open>Clock and calendar\<close>

text \<open>
  \<open>datetime.utcnow()\<close> reads the system clock. The clock reading is a number of seconds
  since 1970-01-01T00:00:00Z; the standard library turns it into calendar fields with
  the proleptic Gregorian calendar, written out here (days are counted in 400-year eras
  from 0000-03-01).
\<close>

record datetime =
  year :: nat
  month :: nat
  day :: nat
  hour :: nat
  minute :: nat
  second :: nat

definition year_of_era :: "nat \<Rightarrow> nat" where
  "year_of_era doe = (doe - doe div 1460 + doe div 36524 - doe div 146096) div 365"

definition day_of_year :: "nat \<Rightarrow> nat \<Rightarrow> nat" where
  "day_of_year doe yoe = doe - (365 * yoe + yoe div 4 - yoe div 100)"

definition month_index :: "nat \<Rightarrow> nat" where
  "month_index doy = (5 * doy + 2) div 153"

definition civil_of :: "nat \<Rightarrow> nat \<Rightarrow> nat \<Rightarrow> nat \<Rightarrow> nat \<times> nat \<times> nat" where
  "civil_of era yoe doy mp =
     (if mp < 10 then (yoe + era * 400, mp + 3, doy - (153 * mp + 2) div 5 + 1)
      else (yoe + era * 400 + 1, mp - 9, doy - (153 * mp + 2) div 5 + 1))"

definition civil_from_era :: "nat \<Rightarrow> nat \<Rightarrow> nat \<times> nat \<times> nat" where
  "civil_from_era era doe =
     civil_of era (year_of_era doe) (day_of_year doe (year_of_era doe))
       (month_index (day_of_year doe (year_of_era doe)))"

definition civil_from_days :: "nat \<Rightarrow> nat \<times> nat \<times> nat" where
  "civil_from_days z = civil_from_era ((z + 719468) div 146097) ((z + 719468) mod 146097)"

definition utcfromtimestamp :: "nat \<Rightarrow> datetime" where
  "utcfromtimestamp t =
     (case civil_from_days (t div 86400) of (y, m, d) \<Rightarrow>
        \<lparr> year = y, month = m, day = d,
          hour = (t div 3600) mod 24, minute = (t div 60) mod 60, second = t mod 60 \<rparr>)"

text \<open>\<open>strftime('%Y-%m-%d-%H')\<close>.\<close>

definition strftime_hour :: "datetime \<Rightarrow> string" where
  "strftime_hour dt =
     zero_pad 4 (year dt) @ ''-'' @ zero_pad 2 (month dt) @ ''-'' @ zero_pad 2 (day dt)
       @ ''-'' @ zero_pad 2 (hour dt)"

text \<open>\<open>date.isoformat()\<close>: \<open>YYYY-MM-DD\<close>, for a day counted from 1970-01-01.\<close>

definition isoformat_day :: "nat \<Rightarrow> string" where
  "isoformat_day z =
     (case civil_from_days z of (y, m, d) \<Rightarrow>
        zero_pad 4 y @ ''-'' @ zero_pad 2 m @ ''-'' @ zero_pad 2 d)"

section \<open>Session identifier (lambda\_sns\_handler.py, lines 207-221)\<close>

text \<open>
  \<open>clean_phone = sender_phone.replace('+', '').replace('-', '').replace(' ', '')\<close>
\<close>

definition clean_phone :: "string \<Rightarrow> string" where
  "clean_phone sender_phone =
     remove_char (CHR '' '') (remove_char (CHR ''-'') (remove_char (CHR ''+'') sender_phone))"

text \<open>
  The derivation as the handler writes it. \<open>sha\<close> is \<open>hashlib.sha256(s.encode()).hexdigest()\<close>,
  a function of the standard library taken as a parameter; \<open>now\<close> is the clock reading that
  \<open>datetime.utcnow()\<close> converts.
\<close>

definition derive_session_id :: "(string \<Rightarrow> string) \<Rightarrow> nat \<Rightarrow> string \<Rightarrow> string" where
  "derive_session_id sha now sender_phone =
     (let cp = clean_phone sender_phone;
          phone_hash = sha sender_phone;
          hour_timestamp = strftime_hour (utcfromtimestamp now)
      in ''whatsapp-'' @ cp @ ''-'' @ hour_timestamp @ ''-'' @ take 8 phone_hash)"

text \<open>
  The contract in the words of the specification, for comparison with the code:
  the normalised phone is the sender phone without \<open>+\<close>, \<open>-\<close> and spaces, the hour bucket
  is the UTC hour containing the instant, written \<open>YYYY-MM-DD-HH\<close>.
\<close>

definition normalized_phone :: "string \<Rightarrow> string" where
  "normalized_phone p = [c \<leftarrow> p. c \<noteq> CHR ''+'' \<and> c \<noteq> CHR ''-'' \<and> c \<noteq> CHR '' '']"

definition hour_index :: "nat \<Rightarrow> nat" where
  "hour_index t = t div 3600"

definition hour_bucket :: "nat \<Rightarrow> string" where
  "hour_bucket t =
     (case civil_from_days (hour_index t div 24) of (y, m, d) \<Rightarrow>
        zero_pad 4 y @ ''-'' @ zero_pad 2 m @ ''-'' @ zero_pad 2 d @ ''-''
          @ zero_pad 2 (hour_index t mod 24))"

definition first_8_hex :: "string \<Rightarrow> string" where
  "first_8_hex h = take 8 h"

definition spec_session_id :: "(string \<Rightarrow> string) \<Rightarrow> nat \<Rightarrow> string \<Rightarrow> string" where
  "spec_session_id sha t raw_phone =
     ''whatsapp-'' @ normalized_phone raw_phone @ ''-'' @ hour_bucket t @ ''-''
       @ first_8_hex (sha raw_phone)"

section \<open>External effects: the world, and the trace of calls made\<close>

text \<open>
  Everything outside the process (the messaging service, the user directory, the agent
  runtime, the parameter store, the memory service, the tool gateway, the language model,
  the clock, the entropy source) is a world of an arbitrary type \<open>'w\<close>. A call to an
  external service takes the world and returns its outcome, a value or the exception
  raised, together with the world after the call. The model appends one event to a trace
  for every external call it makes and for every error an \<open>except\<close> clause prints or logs;
  progress messages are not recorded.
\<close>

text \<open>
  A callable tool: one of the functions of this repository (or of the agent framework)
  registered by name, or a tool listed by the gateway.
\<close>

datatype tool = LocalTool string | RemoteTool string

datatype event =
    SendWhatsappMessage pyval
  | ListUsers
  | InvokeAgentRuntime string pyval
  | PrintError string error
  | SsmGetParameter string
  | NewMemoryClient
  | NewMemoryConfig
  | NewSessionManager
  | McpEnter
  | McpListTools
  | McpExit
  | NewAgent "tool list"
  | AgentCall "tool list" string
  | GenerateMockData string
  | SubAgentCall string string

record 'w io =
  world :: 'w
  trace :: "event list"

definition emit :: "event \<Rightarrow> ('w, 'z) io_scheme \<Rightarrow> ('w, 'z) io_scheme" where
  "emit e st = st\<lparr>trace := trace st @ [e]\<rparr>"

section \<open>The inbound adapter (lambda\_sns\_handler.py)\<close>

text \<open>
  A user of the directory as \<open>list_users\<close> returns it: a name and a list of attributes,
  each a name with an optional value. The paginator yields pages one after the other and
  may raise at any point; what it yields is a list of page results, consumed in order.
\<close>

record cognito_user =
  Username :: "string option"
  Attributes :: "(string \<times> string option) list option"

datatype page_result = Page "cognito_user list" | PageError error

text \<open>
  The reply of \<open>invoke_agent_runtime\<close>: the content type, and what draining the body
  yields, its lines or chunks (already decoded), or the exception raised while reading.
\<close>

record runtime_response =
  contentType :: "string option"
  body :: "error + string list"

text \<open>
  The functions of the libraries and services the handler calls. \<open>json_loads\<close> is
  \<open>json.loads\<close>, \<open>format_value\<close> what an f-string writes for a value,
  \<open>sha256_hexdigest\<close> is \<open>hashlib.sha256(s.encode()).hexdigest()\<close>; \<open>utcnow\<close> reads the
  clock (seconds since the epoch). \<open>send_whatsapp_message\<close> stands for creating the
  \<open>socialmessaging\<close> client and sending the message, \<open>list_users\<close> for the paginator
  over the user pool, \<open>invoke_agent_runtime\<close> for the call with a session id and a
  payload.
\<close>

record 'w lambda_env =
  json_loads :: "string \<Rightarrow> error + pyval"
  format_value :: "pyval \<Rightarrow> string"
  sha256_hexdigest :: "string \<Rightarrow> string"
  utcnow :: "'w \<Rightarrow> nat"
  send_whatsapp_message :: "pyval \<Rightarrow> 'w \<Rightarrow> (error + pyval) \<times> 'w"
  list_users :: "'w \<Rightarrow> page_result list \<times> 'w"
  invoke_agent_runtime :: "string \<Rightarrow> pyval \<Rightarrow> 'w \<Rightarrow> (error + runtime_response) \<times> 'w"

subsection \<open>markAsRead (lines 31-61)\<close>

definition meta_message :: "pyval \<Rightarrow> pyval" where
  "meta_message msg_id =
     PDict [(''messaging_product'', PStr ''whatsapp''), (''message_id'', msg_id),
            (''status'', PStr ''read'')]"

text \<open>
  The whole body is inside \<open>try\<close>; the \<open>except Exception\<close> clause prints the error and
  returns \<open>None\<close>.
\<close>

definition markAsRead :: "'w lambda_env \<Rightarrow> pyval \<Rightarrow> 'w io \<Rightarrow> (error + pyval) \<times> 'w io" where
  "markAsRead env msg_id st =
     (let st1 = emit (SendWhatsappMessage (meta_message msg_id)) st in
      case send_whatsapp_message env (meta_message msg_id) (world st1) of
        (Inr response, w) \<Rightarrow> (Inr response, st1\<lparr>world := w\<rparr>)
      | (Inl e, w) \<Rightarrow> (Inr PNone, emit (PrintError ''markAsRead'' e) (st1\<lparr>world := w\<rparr>)))"

subsection \<open>get\_user\_persona\_by\_phone (lines 63-113)\<close>

text \<open>
  The loop over a user's attributes: the last \<open>phone_number\<close> and the last
  \<open>custom:persona\<close> attribute win; \<open>attr['Value']\<close> raises \<open>KeyError\<close> when the attribute
  has no value.
\<close>

fun scan_attributes ::
  "(string \<times> string option) list \<Rightarrow> string option \<Rightarrow> string option
     \<Rightarrow> error + (string option \<times> string option)" where
  "scan_attributes [] phone_attr persona_attr = Inr (phone_attr, persona_attr)"
| "scan_attributes ((name, v) # attrs) phone_attr persona_attr =
     (if name = ''phone_number'' then
        (case v of None \<Rightarrow> Inl KeyError
         | Some x \<Rightarrow> scan_attributes attrs (Some x) persona_attr)
      else if name = ''custom:persona'' then
        (case v of None \<Rightarrow> Inl KeyError
         | Some x \<Rightarrow> scan_attributes attrs phone_attr (Some x))
      else scan_attributes attrs phone_attr persona_attr)"

text \<open>
  The loop over the users of a page. \<open>Some p\<close> is the value returned from inside the
  loop, \<open>None\<close> means that the loop ended without a match.
\<close>

fun scan_users :: "string \<Rightarrow> cognito_user list \<Rightarrow> error + string option" where
  "scan_users phone_number [] = Inr None"
| "scan_users phone_number (user # users) =
     (case scan_attributes (case Attributes user of None \<Rightarrow> [] | Some attrs \<Rightarrow> attrs)
             None None of
        Inl e \<Rightarrow> Inl e
      | Inr (phone_attr, persona_attr) \<Rightarrow>
          (if phone_attr \<noteq> None \<and> phone_attr \<noteq> Some [] \<and> phone_attr = Some phone_number
           then Inr (Some (case persona_attr of
                             None \<Rightarrow> ''student''
                           | Some p \<Rightarrow> if p \<noteq> [] then p else ''student''))
           else scan_users phone_number users))"

fun scan_pages :: "string \<Rightarrow> page_result list \<Rightarrow> error + string option" where
  "scan_pages phone_number [] = Inr None"
| "scan_pages phone_number (PageError e # pages) = Inl e"
| "scan_pages phone_number (Page users # pages) =
     (case scan_users phone_number users of
        Inl e \<Rightarrow> Inl e
      | Inr (Some p) \<Rightarrow> Inr (Some p)
      | Inr None \<Rightarrow> scan_pages phone_number pages)"

text \<open>
  \<open>phone_number.startswith('+')\<close> is the first statement inside \<open>try\<close>: an argument that
  is not a string raises \<open>AttributeError\<close> there, before the directory is called. Every
  exception ends in the \<open>except Exception\<close> clause, which prints it and returns
  \<open>'student'\<close>.
\<close>

definition get_user_persona_by_phone ::
  "'w lambda_env \<Rightarrow> pyval \<Rightarrow> 'w io \<Rightarrow> (error + string) \<times> 'w io" where
  "get_user_persona_by_phone env phone_number st =
     (case phone_number of
        PStr s \<Rightarrow>
          (let pn = (if \<not> startswith s ''+'' then ''+'' @ s else s);
               st1 = emit ListUsers st
           in case list_users env (world st1) of
                (pages, w) \<Rightarrow>
                  (case scan_pages pn pages of
                     Inr (Some persona) \<Rightarrow> (Inr persona, st1\<lparr>world := w\<rparr>)
                   | Inr None \<Rightarrow> (Inr ''student'', st1\<lparr>world := w\<rparr>)
                   | Inl e \<Rightarrow>
                       (Inr ''student'',
                        emit (PrintError ''get_user_persona_by_phone'' e) (st1\<lparr>world := w\<rparr>))))
      | _ \<Rightarrow>
          (Inr ''student'', emit (PrintError ''get_user_persona_by_phone'' AttributeError) st))"

subsection \<open>lambda\_handler (lines 116-290)\<close>

text \<open>\<open>json.loads(x)\<close>: the argument must be a string.\<close>

definition loads :: "'w lambda_env \<Rightarrow> pyval \<Rightarrow> error + pyval" where
  "loads env v = (case v of PStr s \<Rightarrow> json_loads env s | _ \<Rightarrow> Inl TypeError)"

text \<open>
  Lines 136-152: the record is decoded down to \<open>changes[0].get('value', {})\<close>.
  \<open>None\<close> is the \<open>continue\<close> taken when there are no changes.
\<close>

definition envelope_value :: "'w lambda_env \<Rightarrow> pyval \<Rightarrow> error + pyval option" where
  "envelope_value env record =
     bind_err (py_item record ''Sns'') (\<lambda>sns.
     bind_err (py_item sns ''Message'') (\<lambda>message_str.
     bind_err (loads env message_str) (\<lambda>sns_message.
     bind_err (py_get sns_message ''whatsAppWebhookEntry'' (PStr ''{}'')) (\<lambda>whatsapp_entry_str.
     bind_err (loads env whatsapp_entry_str) (\<lambda>whatsapp_entry.
     bind_err (py_get whatsapp_entry ''changes'' (PList [])) (\<lambda>changes.
       if \<not> truthy changes then Inr None
       else bind_err (py_first changes) (\<lambda>change.
            bind_err (py_get change ''value'' (PDict [])) (\<lambda>value. Inr (Some value)))))))))"

text \<open>
  Lines 154-166: a status update and an envelope without messages are skipped
  (\<open>continue\<close>, here \<open>None\<close>); otherwise the first message is taken.
\<close>

definition first_message :: "pyval \<Rightarrow> error + pyval option" where
  "first_message value =
     bind_err (py_contains value ''statuses'') (\<lambda>is_status.
       if is_status then Inr None
       else bind_err (py_get value ''messages'' (PList [])) (\<lambda>messages.
              if \<not> truthy messages then Inr None
              else bind_err (py_first messages) (\<lambda>message. Inr (Some message))))"

text \<open>Lines 167-169: \<open>message_type\<close>, \<open>sender_phone\<close>, \<open>message_id\<close>.\<close>

definition message_fields :: "pyval \<Rightarrow> error + (pyval \<times> pyval \<times> pyval)" where
  "message_fields message =
     bind_err (py_get message ''type'' (PStr ''text'')) (\<lambda>message_type.
     bind_err (py_get message ''from'' (PStr [])) (\<lambda>sender_phone.
     bind_err (py_get message ''id'' (PStr [])) (\<lambda>message_id.
       Inr (message_type, sender_phone, message_id))))"

text \<open>
  Lines 174-186: the text handed to the orchestrator. The Portuguese word for user has
  one character outside ASCII, an accented a (code point 225); the words for audio and
  video have one each as well.
\<close>

definition usuario :: string where
  "usuario = ''Usu'' @ [CHR 0xE1] @ ''rio''"

definition user_message_of :: "'w lambda_env \<Rightarrow> pyval \<Rightarrow> pyval \<Rightarrow> error + pyval" where
  "user_message_of env message message_type =
     (if message_type = PStr ''text'' then
        bind_err (py_get message ''text'' (PDict [])) (\<lambda>t. py_get t ''body'' (PStr []))
      else if message_type = PStr ''image'' then
        Inr (PStr (''['' @ usuario @ '' enviou uma imagem]''))
      else if message_type = PStr ''audio'' then
        Inr (PStr (''['' @ usuario @ '' enviou um '' @ [CHR 0xE1] @ ''udio]''))
      else if message_type = PStr ''video'' then
        Inr (PStr (''['' @ usuario @ '' enviou um v'' @ [CHR 0xED] @ ''deo]''))
      else if message_type = PStr ''document'' then
        Inr (PStr (''['' @ usuario @ '' enviou um documento]''))
      else Inr (PStr (''['' @ usuario @ '' enviou '' @ format_value env message_type @ '']'')))"

text \<open>Lines 188-190: the contact's name (only printed, but reading it may raise).\<close>

definition user_name_of :: "pyval \<Rightarrow> error + pyval" where
  "user_name_of value =
     bind_err (py_get value ''contacts'' (PList [])) (\<lambda>contacts.
       if truthy contacts then
         bind_err (py_first contacts) (\<lambda>contact.
         bind_err (py_get contact ''profile'' (PDict [])) (\<lambda>profile.
           py_get profile ''name'' (PStr usuario)))
       else Inr (PStr usuario))"

text \<open>Lines 199-201: \<open>professor\<close> is mapped to \<open>teacher\<close>; nothing else is changed.\<close>

definition remap_persona :: "string \<Rightarrow> string" where
  "remap_persona user_persona = (if user_persona = ''professor'' then ''teacher'' else user_persona)"

text \<open>Lines 224-231: the payload sent to the runtime.\<close>

definition build_payload :: "pyval \<Rightarrow> string \<Rightarrow> string \<Rightarrow> pyval" where
  "build_payload user_message user_persona sender_phone =
     PDict [(''inputText'', user_message),
            (''persona'', PStr user_persona),
            (''user_id'', PStr (clean_phone sender_phone)),
            (''persona_id'', PStr (clean_phone sender_phone)),
            (''whatsapp_phone_number'', PStr sender_phone)]"

text \<open>
  Lines 247-266: the reply is drained. An event stream is read line by line, a JSON
  reply is joined and parsed; the text obtained is only printed.
\<close>

definition read_response :: "'w lambda_env \<Rightarrow> runtime_response \<Rightarrow> error + unit" where
  "read_response env response =
     (if sublist ''text/event-stream'' (case contentType response of None \<Rightarrow> [] | Some c \<Rightarrow> c)
      then (case body response of Inl e \<Rightarrow> Inl e | Inr ls \<Rightarrow> Inr ())
      else if contentType response = Some ''application/json''
      then (case body response of
              Inl e \<Rightarrow> Inl e
            | Inr chunks \<Rightarrow>
                (case json_loads env (concat chunks) of Inl e \<Rightarrow> Inl e | Inr v \<Rightarrow> Inr ()))
      else Inr ())"

text \<open>
  Lines 174-266, everything after the read receipt: the message text, the contact
  name, the persona lookup and remapping, the session id, the runtime invocation and
  the reading of its reply. \<open>sender_phone.replace\<close> raises \<open>AttributeError\<close> when the
  sender is not a string.
\<close>

definition after_read_receipt ::
  "'w lambda_env \<Rightarrow> pyval \<Rightarrow> pyval \<Rightarrow> pyval \<Rightarrow> pyval \<Rightarrow> 'w io \<Rightarrow> (error + unit) \<times> 'w io" where
  "after_read_receipt env value message message_type sender_phone st =
     (case bind_err (user_message_of env message message_type) (\<lambda>user_message.
           bind_err (user_name_of value) (\<lambda>user_name. Inr user_message)) of
        Inl e \<Rightarrow> (Inl e, st)
      | Inr user_message \<Rightarrow>
          (case get_user_persona_by_phone env sender_phone st of
             (Inl e, st1) \<Rightarrow> (Inl e, st1)
           | (Inr persona, st1) \<Rightarrow>
               (case sender_phone of
                  PStr sp \<Rightarrow>
                    (let session_id =
                           derive_session_id (sha256_hexdigest env) (utcnow env (world st1)) sp;
                         payload = build_payload user_message (remap_persona persona) sp;
                         st2 = emit (InvokeAgentRuntime session_id payload) st1
                     in case invoke_agent_runtime env session_id payload (world st2) of
                          (Inl e, w) \<Rightarrow> (Inl e, st2\<lparr>world := w\<rparr>)
                        | (Inr response, w) \<Rightarrow> (read_response env response, st2\<lparr>world := w\<rparr>))
                | _ \<Rightarrow> (Inl AttributeError, st1))))"

text \<open>Lines 165-266: one message. The read receipt is the first thing done with it.\<close>

definition process_message ::
  "'w lambda_env \<Rightarrow> pyval \<Rightarrow> pyval \<Rightarrow> 'w io \<Rightarrow> (error + unit) \<times> 'w io" where
  "process_message env value message st =
     (case message_fields message of
        Inl e \<Rightarrow> (Inl e, st)
      | Inr (message_type, sender_phone, message_id) \<Rightarrow>
          (case markAsRead env message_id st of
             (Inl e, st1) \<Rightarrow> (Inl e, st1)
           | (Inr r, st1) \<Rightarrow> after_read_receipt env value message message_type sender_phone st1))"

text \<open>The body of the loop over the records (lines 136-266).\<close>

definition process_record :: "'w lambda_env \<Rightarrow> pyval \<Rightarrow> 'w io \<Rightarrow> (error + unit) \<times> 'w io" where
  "process_record env record st =
     (case envelope_value env record of
        Inl e \<Rightarrow> (Inl e, st)
      | Inr None \<Rightarrow> (Inr (), st)
      | Inr (Some value) \<Rightarrow>
          (case first_message value of
             Inl e \<Rightarrow> (Inl e, st)
           | Inr None \<Rightarrow> (Inr (), st)
           | Inr (Some message) \<Rightarrow> process_message env value message st))"

text \<open>The loop: an exception leaves it, \<open>continue\<close> and a processed message go on.\<close>

fun process_records ::
  "'w lambda_env \<Rightarrow> pyval list \<Rightarrow> 'w io \<Rightarrow> (error + unit) \<times> 'w io" where
  "process_records env [] st = (Inr (), st)"
| "process_records env (r # rs) st =
     (case process_record env r st of
        (Inl e, st1) \<Rightarrow> (Inl e, st1)
      | (Inr u, st1) \<Rightarrow> process_records env rs st1)"

text \<open>\<open>len(x)\<close>.\<close>

fun py_len :: "pyval \<Rightarrow> error + nat" where
  "py_len (PList xs) = Inr (length xs)"
| "py_len (PStr s) = Inr (length s)"
| "py_len (PDict kvs) = Inr (length kvs)"
| "py_len _ = Inl TypeError"

datatype http_response = StatusCode200 | StatusCode500 error

text \<open>
  The handler. Line 131 prints \<open>len(event.get('Records', []))\<close> before the \<open>try\<close>
  begins, so an exception there leaves the handler; every exception inside \<open>try\<close> is
  printed and answered with status 500.
\<close>

definition lambda_handler ::
  "'w lambda_env \<Rightarrow> pyval \<Rightarrow> 'w io \<Rightarrow> (error + http_response) \<times> 'w io" where
  "lambda_handler env event st =
     (case bind_err (py_get event ''Records'' (PList [])) py_len of
        Inl e \<Rightarrow> (Inl e, st)
      | Inr n \<Rightarrow>
          (case bind_err (py_item event ''Records'') py_iter of
             Inl e \<Rightarrow> (Inr (StatusCode500 e), emit (PrintError ''lambda_handler'' e) st)
           | Inr records \<Rightarrow>
               (case process_records env records st of
                  (Inl e, st1) \<Rightarrow>
                    (Inr (StatusCode500 e), emit (PrintError ''lambda_handler'' e) st1)
                | (Inr u, st1) \<Rightarrow> (Inr StatusCode200, st1))))"

subsection \<open>The directory, as the persona contract speaks of it\<close>

text \<open>
  The notions the contract of persona resolution uses, defined on the directory itself
  and not through the scanning loops: the value of an attribute of a user is the value of
  its last occurrence; a user matches a phone number when its \<open>phone_number\<close> attribute
  has that value; the number looked up is the given one with a leading \<open>+\<close>.
\<close>

definition attributes_of :: "cognito_user \<Rightarrow> (string \<times> string option) list" where
  "attributes_of u = (case Attributes u of None \<Rightarrow> [] | Some attrs \<Rightarrow> attrs)"

definition last_value :: "string \<Rightarrow> (string \<times> string option) list \<Rightarrow> string option" where
  "last_value name attrs =
     (case filter (\<lambda>a. fst a = name) attrs of [] \<Rightarrow> None | x # xs \<Rightarrow> snd (last (x # xs)))"

definition user_matches :: "string \<Rightarrow> cognito_user \<Rightarrow> bool" where
  "user_matches pn u = (last_value ''phone_number'' (attributes_of u) = Some pn)"

definition lacks_persona :: "cognito_user \<Rightarrow> bool" where
  "lacks_persona u =
     (last_value ''custom:persona'' (attributes_of u) = None
      \<or> last_value ''custom:persona'' (attributes_of u) = Some [])"

definition no_match_in :: "string \<Rightarrow> cognito_user list \<Rightarrow> bool" where
  "no_match_in pn us = list_all (\<lambda>u. \<not> user_matches pn u) us"

definition page_users :: "page_result \<Rightarrow> cognito_user list" where
  "page_users p = (case p of Page us \<Rightarrow> us | PageError e \<Rightarrow> [])"

definition users_of :: "page_result list \<Rightarrow> cognito_user list" where
  "users_of pages = concat (map page_users pages)"

definition e164 :: "string \<Rightarrow> string" where
  "e164 s = (if startswith s ''+'' then s else ''+'' @ s)"

text \<open>The lookup fails with a service error before any user has matched.\<close>

definition service_error_before_match :: "string \<Rightarrow> page_result list \<Rightarrow> bool" where
  "service_error_before_match pn pages =
     (\<exists>ps e rest. pages = ps @ PageError e # rest \<and> no_match_in pn (users_of ps))"

text \<open>No user of the directory matches.\<close>

definition no_user_matches :: "string \<Rightarrow> page_result list \<Rightarrow> bool" where
  "no_user_matches pn pages = no_match_in pn (users_of pages)"

text \<open>The first user that matches has no persona attribute (or an empty one).\<close>

definition first_match_lacks_persona :: "string \<Rightarrow> page_result list \<Rightarrow> bool" where
  "first_match_lacks_persona pn pages =
     (\<exists>ps us u us' rest.
        pages = ps @ Page (us @ u # us') # rest
        \<and> no_match_in pn (users_of ps @ us)
        \<and> user_matches pn u \<and> lacks_persona u)"

text \<open>The personas that a trace shows as forwarded to the runtime, in order.\<close>

fun forwarded_personas :: "event list \<Rightarrow> pyval option list" where
  "forwarded_personas [] = []"
| "forwarded_personas (InvokeAgentRuntime session_id payload # es) =
     (case payload of PDict kvs \<Rightarrow> map_of kvs ''persona'' | _ \<Rightarrow> None) # forwarded_personas es"
| "forwarded_personas (e # es) = forwarded_personas es"

subsection \<open>A sample directory and sample messages\<close>

text \<open>
  Concrete inputs on which the handler is run below. The directory holds users shaped
  like the demonstration users that \<open>deploy_cognito_user_pool.py\<close> creates (an
  administrator, a professor and a student), one user whose persona attribute is none of
  these, and one user without a persona attribute.
\<close>

definition demo_user :: "string \<Rightarrow> string \<Rightarrow> string option \<Rightarrow> cognito_user" where
  "demo_user name phone persona =
     \<lparr> Username = Some name,
       Attributes = Some ([(''email'', Some (name @ ''@octank.edu'')),
                           (''phone_number'', Some phone)]
                          @ (case persona of None \<Rightarrow> [] | Some p \<Rightarrow> [(''custom:persona'', Some p)])
                          @ [(''phone_number_verified'', Some ''true'')]) \<rparr>"

definition demo_directory :: "page_result list" where
  "demo_directory =
     [Page [demo_user ''admin_demo'' ''+5511900000001'' (Some ''administrator''),
            demo_user ''professor_demo'' ''+5511900000002'' (Some ''professor'')],
      Page [demo_user ''student_demo'' ''+5511900000003'' (Some ''student''),
            demo_user ''guest_demo'' ''+5511900000004'' (Some ''guest''),
            demo_user ''new_demo'' ''+5511900000005'' None]]"

text \<open>
  A directory whose second page cannot be fetched.
\<close>

definition failing_directory :: "page_result list" where
  "failing_directory =
     [Page [demo_user ''admin_demo'' ''+5511900000001'' (Some ''administrator'')],
      PageError (ServiceError ''TooManyRequestsException'')]"

text \<open>
  A text message from a sender, the envelope value and the webhook entry that carry it,
  and the webhook entry of a delivery status update.
\<close>

definition demo_message :: "string \<Rightarrow> pyval" where
  "demo_message sender =
     PDict [(''type'', PStr ''text''), (''from'', PStr sender), (''id'', PStr ''wamid.1''),
            (''text'', PDict [(''body'', PStr ''Quais sao minhas tarefas?'')])]"

definition demo_value :: "string \<Rightarrow> pyval" where
  "demo_value sender =
     PDict [(''messages'', PList [demo_message sender]),
            (''contacts'', PList [PDict [(''profile'', PDict [(''name'', PStr ''Demo'')])]])]"

definition text_entry :: "string \<Rightarrow> pyval" where
  "text_entry sender = PDict [(''changes'', PList [PDict [(''value'', demo_value sender)]])]"

definition status_value :: "(string \<times> pyval) list" where
  "status_value = [(''statuses'', PList [PDict [(''id'', PStr ''wamid.1''), (''status'', PStr ''delivered'')]])]"

definition status_entry :: pyval where
  "status_entry = PDict [(''changes'', PList [PDict [(''value'', PDict status_value)]])]"

text \<open>
  A decoder for the sample documents: the document named \<open>sns:X\<close> is an SNS message
  whose webhook entry is the document \<open>entry:X\<close>; \<open>entry:status\<close> is the status update,
  any other \<open>entry:X\<close> a text message from \<open>X\<close>; nothing else parses.
\<close>

definition demo_json_loads :: "string \<Rightarrow> error + pyval" where
  "demo_json_loads s =
     (if take 4 s = ''sns:'' then Inr (PDict [(''whatsAppWebhookEntry'', PStr (''entry:'' @ drop 4 s))])
      else if s = ''entry:status'' then Inr status_entry
      else if take 6 s = ''entry:'' then Inr (text_entry (drop 6 s))
      else if s = ''{}'' then Inr (PDict [])
      else Inl (ValueError ''JSONDecodeError''))"

definition sns_record :: "string \<Rightarrow> pyval" where
  "sns_record name = PDict [(''Sns'', PDict [(''Message'', PStr (''sns:'' @ name))])]"

text \<open>
  A sample environment: the directory and the outcome of sending the read receipt are
  given, the clock stands at 2024-11-04 10:00:00 UTC, the runtime answers with an empty
  JSON document, and the world carries no information.
\<close>

definition demo_env :: "page_result list \<Rightarrow> error + pyval \<Rightarrow> unit lambda_env" where
  "demo_env pages receipt =
     \<lparr> json_loads = demo_json_loads,
       format_value = (\<lambda>v. case v of PStr s \<Rightarrow> s | _ \<Rightarrow> ''?''),
       sha256_hexdigest = (\<lambda>s. ''9f86d081884c7d65''),
       utcnow = (\<lambda>w. 1730714400),
       send_whatsapp_message = (\<lambda>m w. (receipt, w)),
       list_users = (\<lambda>w. (pages, w)),
       invoke_agent_runtime =
         (\<lambda>sid p w. (Inr \<lparr> contentType = Some ''application/json'', body = Inr [''{}''] \<rparr>, w)) \<rparr>"

definition start :: "unit io" where
  "start = \<lparr> world = (), trace = [] \<rparr>"

section \<open>The orchestrator runtime (orchestrator\_agentcore\_runtime\_gateway.py)\<close>

text \<open>
  The process-wide state of the runtime: the two module-level caches, beside the world
  and the trace.
\<close>

datatype memory_client = MemoryClient "string option"

record 'w runtime = "'w io" +
  memory_id_cache :: "string option"
  memory_client_cache :: "memory_client option"

record retrieval_config =
  top_k :: nat
  relevance_score :: rat

record memory_config =
  memory_id :: pyval
  session_id :: pyval
  actor_id :: pyval
  retrieval :: "(string \<times> retrieval_config) list"

text \<open>What calling the agent returns: an object with a \<open>message\<close>, or anything else.\<close>

datatype agent_result = WithMessage pyval | Plain string

record orchestration_response =
  result :: pyval
  response_session_id :: pyval
  response_persona :: pyval

text \<open>
  The services and library functions the runtime calls. \<open>region_name\<close> is
  \<open>Session().region_name\<close>; \<open>ssm_get_parameter\<close> creates the SSM client and reads the value
  of a parameter; \<open>getenv\<close> reads the process environment; \<open>new_memory_client\<close>,
  \<open>check_memory_config\<close> and \<open>new_session_manager\<close> are the constructors of the memory
  integration, each of which may raise; \<open>mcp_enter\<close> and \<open>mcp_exit\<close> open and close the
  gateway session of the \<open>with\<close> statement, and either may raise; \<open>list_tools_sync\<close>
  fetches the remote tool catalog; \<open>new_agent\<close> is the \<open>Agent\<close> constructor for a tool list
  and \<open>call_agent\<close> the model invocation of an agent with these tools on a query;
  \<open>str_of\<close> is what an f-string writes for a value.
\<close>

record 'w runtime_env =
  region_name :: "'w \<Rightarrow> string option"
  ssm_get_parameter :: "string \<Rightarrow> 'w \<Rightarrow> (error + string) \<times> 'w"
  getenv :: "string \<Rightarrow> string option"
  new_memory_client :: "string option \<Rightarrow> 'w \<Rightarrow> error option \<times> 'w"
  check_memory_config :: "memory_config \<Rightarrow> error option"
  new_session_manager :: "memory_config \<Rightarrow> string option \<Rightarrow> 'w \<Rightarrow> error option \<times> 'w"
  mcp_enter :: "'w \<Rightarrow> error option \<times> 'w"
  mcp_exit :: "'w \<Rightarrow> error option \<times> 'w"
  list_tools_sync :: "'w \<Rightarrow> (error + tool list) \<times> 'w"
  new_agent :: "tool list \<Rightarrow> 'w \<Rightarrow> error option \<times> 'w"
  call_agent :: "tool list \<Rightarrow> string \<Rightarrow> 'w \<Rightarrow> (error + agent_result) \<times> 'w"
  str_of :: "pyval \<Rightarrow> string"

subsection \<open>get\_memory\_id\_from\_ssm (lines 153-174) and get\_memory\_id (lines 177-225)\<close>

definition memory_id_parameter :: string where
  "memory_id_parameter = ''/app/octank_edu_multi_agent/memory_id''"

text \<open>
  Only \<open>ClientError\<close> is caught, logged and raised again as a plain \<open>Exception\<close>; any other
  exception of the client passes through.
\<close>

definition get_memory_id_from_ssm ::
  "'w runtime_env \<Rightarrow> 'w runtime \<Rightarrow> (error + string) \<times> 'w runtime" where
  "get_memory_id_from_ssm env st =
     (let st1 = emit (SsmGetParameter memory_id_parameter) st in
      case ssm_get_parameter env memory_id_parameter (world st1) of
        (Inr v, w) \<Rightarrow> (Inr v, st1\<lparr>world := w\<rparr>)
      | (Inl (ClientError m), w) \<Rightarrow>
          (Inl (Exception (''Could not retrieve memory_id from SSM: '' @ m)),
           emit (PrintError ''get_memory_id_from_ssm'' (ClientError m)) (st1\<lparr>world := w\<rparr>))
      | (Inl e, w) \<Rightarrow> (Inl e, st1\<lparr>world := w\<rparr>))"

definition memory_id_required :: error where
  "memory_id_required =
     Exception (''memory_id is required but not found in payload, SSM, or environment. ''
       @ ''Please provide 'memory_id' in the request payload or configure it in SSM.'')"

text \<open>
  The payload is a dictionary with string keys. The cache counts when it is truthy (set
  and not empty), and so does the environment variable; a value read from the parameter
  store or from the environment is written to the cache. The first definition is the
  part after the cache check (lines 208-225).
\<close>

definition get_memory_id_uncached ::
  "'w runtime_env \<Rightarrow> 'w runtime \<Rightarrow> (error + pyval) \<times> 'w runtime" where
  "get_memory_id_uncached env st =
     (case get_memory_id_from_ssm env st of
        (Inr v, st1) \<Rightarrow> (Inr (PStr v), st1\<lparr>memory_id_cache := Some v\<rparr>)
      | (Inl e, st1) \<Rightarrow>
          (let st2 = emit (PrintError ''get_memory_id'' e) st1 in
           case getenv env ''MEMORY_ID'' of
             Some v \<Rightarrow>
               (if v \<noteq> [] then (Inr (PStr v), st2\<lparr>memory_id_cache := Some v\<rparr>)
                else (Inl memory_id_required, st2))
           | None \<Rightarrow> (Inl memory_id_required, st2)))"

definition get_memory_id ::
  "'w runtime_env \<Rightarrow> (string \<times> pyval) list \<Rightarrow> 'w runtime \<Rightarrow> (error + pyval) \<times> 'w runtime" where
  "get_memory_id env payload st =
     (case map_of payload ''memory_id'' of
        Some v \<Rightarrow> (Inr v, st)
      | None \<Rightarrow>
          (case memory_id_cache st of
             Some c \<Rightarrow> (if c \<noteq> [] then (Inr (PStr c), st) else get_memory_id_uncached env st)
           | None \<Rightarrow> get_memory_id_uncached env st))"

subsection \<open>create\_orchestrator\_agent\_runtime (lines 253-490)\<close>

definition valid_personas :: "string list" where
  "valid_personas = [''student'', ''teacher'', ''administrator'']"

definition base_tools :: "tool list" where
  "base_tools =
     [LocalTool ''answer_student_questions'', LocalTool ''answer_teacher_questions'',
      LocalTool ''answer_payment_questions'', LocalTool ''answer_admin_questions'',
      LocalTool ''answer_general_questions'', LocalTool ''retrieve'']"

text \<open>\<open>x or 'Not specified'\<close>, written into an f-string.\<close>

definition or_not_specified :: "'w runtime_env \<Rightarrow> pyval \<Rightarrow> string" where
  "or_not_specified env v = (if truthy v then str_of env v else ''Not specified'')"

text \<open>Lines 441-446: the query handed to the agent.\<close>

definition contextualized_query ::
  "'w runtime_env \<Rightarrow> pyval \<Rightarrow> pyval \<Rightarrow> pyval \<Rightarrow> pyval \<Rightarrow> string" where
  "contextualized_query env query persona persona_id whatsapp_phone_number =
     ''User Query: '' @ str_of env query @ [CHR 0x0A, CHR 0x0A]
       @ ''[Context: Persona='' @ str_of env persona @ '', ID='' @ or_not_specified env persona_id
       @ (if truthy whatsapp_phone_number
          then '', WhatsApp Phone='' @ str_of env whatsapp_phone_number else [])
       @ '']'' @ [CHR 0x0A]"

text \<open>
  Line 448 logs \<open>query[:100]\<close>: a query that cannot be sliced raises \<open>TypeError\<close> there
  (a dictionary raises as well).
\<close>

fun sliceable :: "pyval \<Rightarrow> bool" where
  "sliceable (PStr s) = True"
| "sliceable (PList xs) = True"
| "sliceable _ = False"

text \<open>
  One invocation attempt with a tool list: the \<open>Agent\<close> is constructed with the tools
  and then called on the query.
\<close>

definition invocation_attempt ::
  "'w runtime_env \<Rightarrow> tool list \<Rightarrow> string \<Rightarrow> 'w runtime \<Rightarrow> (error + agent_result) \<times> 'w runtime" where
  "invocation_attempt env tools query st =
     (let st1 = emit (NewAgent tools) st in
      case new_agent env tools (world st1) of
        (Some e, w) \<Rightarrow> (Inl e, st1\<lparr>world := w\<rparr>)
      | (None, w) \<Rightarrow>
          (let st2 = emit (AgentCall tools query) (st1\<lparr>world := w\<rparr>) in
           case call_agent env tools query (world st2) of
             (r, w2) \<Rightarrow> (r, st2\<lparr>world := w2\<rparr>)))"

text \<open>Lines 453-471, the body of \<open>try\<close>: the catalog is fetched and unioned with the fixed set.\<close>

definition attempt_with_gateway_tools ::
  "'w runtime_env \<Rightarrow> string \<Rightarrow> 'w runtime \<Rightarrow> (error + agent_result) \<times> 'w runtime" where
  "attempt_with_gateway_tools env query st =
     (let st1 = emit McpListTools st in
      case list_tools_sync env (world st1) of
        (Inl e, w) \<Rightarrow> (Inl e, st1\<lparr>world := w\<rparr>)
      | (Inr mcp_tools, w) \<Rightarrow> invocation_attempt env (base_tools @ mcp_tools) query (st1\<lparr>world := w\<rparr>))"

text \<open>
  Lines 452-490, \<open>try\<close> with its \<open>except Exception\<close> clause: the error is logged and one
  attempt with the fixed tools follows, outside any \<open>try\<close>.
\<close>

definition orchestrate_with_fallback ::
  "'w runtime_env \<Rightarrow> string \<Rightarrow> 'w runtime \<Rightarrow> (error + agent_result) \<times> 'w runtime" where
  "orchestrate_with_fallback env query st =
     (case attempt_with_gateway_tools env query st of
        (Inr r, st1) \<Rightarrow> (Inr r, st1)
      | (Inl e, st1) \<Rightarrow>
          invocation_attempt env base_tools query
            (emit (PrintError ''create_orchestrator_agent_runtime'' e) st1))"

text \<open>
  The function: the persona is validated, the query is built and logged, and the
  \<open>try\<close> statement runs inside \<open>with mcp_client\<close>. Entering the gateway session is outside
  \<open>try\<close>: when it raises, the block is not run. Leaving the session happens on every way
  out of the block; when that raises, its exception is the outcome, whatever the block
  returned or raised. The text of the system prompt plays no role in the control flow and
  is not part of the model.
\<close>

definition create_orchestrator_agent_runtime ::
  "'w runtime_env \<Rightarrow> pyval \<Rightarrow> pyval \<Rightarrow> pyval \<Rightarrow> pyval \<Rightarrow> 'w runtime
     \<Rightarrow> (error + agent_result) \<times> 'w runtime" where
  "create_orchestrator_agent_runtime env query persona persona_id whatsapp_phone_number st =
     (if persona \<notin> PStr ` set valid_personas then
        (Inl (ValueError (''Invalid persona '' @ [CHR 0x27] @ str_of env persona @ [CHR 0x27]
                            @ ''. Must be one of: student, teacher, administrator'')), st)
      else if \<not> sliceable query then (Inl TypeError, st)
      else
        (let st1 = emit McpEnter st in
         case mcp_enter env (world st1) of
           (Some e, w) \<Rightarrow> (Inl e, st1\<lparr>world := w\<rparr>)
         | (None, w) \<Rightarrow>
             (case orchestrate_with_fallback env
                     (contextualized_query env query persona persona_id whatsapp_phone_number)
                     (st1\<lparr>world := w\<rparr>) of
                (r, st2) \<Rightarrow>
                  (let st3 = emit McpExit st2 in
                   case mcp_exit env (world st3) of
                     (Some e, w3) \<Rightarrow> (Inl e, st3\<lparr>world := w3\<rparr>)
                   | (None, w3) \<Rightarrow> (r, st3\<lparr>world := w3\<rparr>)))))"

subsection \<open>invoke (lines 497-645)\<close>

text \<open>\<open>payload.get(key)\<close>: \<open>None\<close> when the key is absent.\<close>

definition payload_get :: "(string \<times> pyval) list \<Rightarrow> string \<Rightarrow> pyval" where
  "payload_get payload k = (case map_of payload k of None \<Rightarrow> PNone | Some v \<Rightarrow> v)"

text \<open>Lines 590-611: the three namespaces, each with the same retrieval parameters.\<close>

definition retrieval_namespaces :: "(string \<times> retrieval_config) list" where
  "retrieval_namespaces =
     [(''/octank-edu/{actorId}/preferences'', \<lparr>top_k = 5, relevance_score = 7 / 10\<rparr>),
      (''/octank-edu/{actorId}/facts'', \<lparr>top_k = 5, relevance_score = 7 / 10\<rparr>),
      (''/octank-edu/{actorId}/{sessionId}'', \<lparr>top_k = 5, relevance_score = 7 / 10\<rparr>)]"

text \<open>
  Lines 581-645, after the memory id is known: the memory client (created once per
  process), the memory configuration, the session manager, and the orchestrator.
\<close>

definition run_orchestrator ::
  "'w runtime_env \<Rightarrow> pyval \<Rightarrow> pyval \<Rightarrow> pyval \<Rightarrow> pyval \<Rightarrow> pyval \<Rightarrow> memory_config \<Rightarrow> string option
     \<Rightarrow> 'w runtime \<Rightarrow> (error + orchestration_response) \<times> 'w runtime" where
  "run_orchestrator env user_message persona persona_id whatsapp_phone_number sid config region st =
     (let st1 = emit NewMemoryConfig st in
      case check_memory_config env config of
        Some e \<Rightarrow> (Inl e, st1)
      | None \<Rightarrow>
          (let st2 = emit NewSessionManager st1 in
           case new_session_manager env config region (world st2) of
             (Some e, w) \<Rightarrow> (Inl e, st2\<lparr>world := w\<rparr>)
           | (None, w) \<Rightarrow>
               (case create_orchestrator_agent_runtime env user_message persona persona_id
                       whatsapp_phone_number (st2\<lparr>world := w\<rparr>) of
                  (Inl e, st3) \<Rightarrow> (Inl e, emit (PrintError ''invoke'' e) st3)
                | (Inr r, st3) \<Rightarrow>
                    (Inr \<lparr> result = (case r of WithMessage m \<Rightarrow> m | Plain s \<Rightarrow> PStr s),
                           response_session_id = sid,
                           response_persona = persona \<rparr>, st3))))"

definition with_memory_client ::
  "'w runtime_env \<Rightarrow> string option \<Rightarrow> 'w runtime \<Rightarrow> error option \<times> 'w runtime" where
  "with_memory_client env region st =
     (case memory_client_cache st of
        Some c \<Rightarrow> (None, st)
      | None \<Rightarrow>
          (let st1 = emit NewMemoryClient st in
           case new_memory_client env region (world st1) of
             (Some e, w) \<Rightarrow> (Some e, st1\<lparr>world := w\<rparr>)
           | (None, w) \<Rightarrow>
               (None, st1\<lparr>world := w, memory_client_cache := Some (MemoryClient region)\<rparr>)))"

text \<open>
  The entrypoint. The three required parameters and the session id are checked first,
  each with its own exception; then the memory id is resolved (a failure is logged and
  raised again); then the memory objects are built and the orchestrator is run.
\<close>

definition invoke ::
  "'w runtime_env \<Rightarrow> (string \<times> pyval) list \<Rightarrow> pyval \<Rightarrow> 'w runtime
     \<Rightarrow> (error + orchestration_response) \<times> 'w runtime" where
  "invoke env payload context_session_id st =
     (let user_message = py_or (payload_get payload ''inputText'') (payload_get payload ''prompt'');
          persona = payload_get payload ''persona'';
          user_id = payload_get payload ''user_id'';
          persona_id = payload_get payload ''persona_id'';
          whatsapp_phone_number = payload_get payload ''whatsapp_phone_number''
      in
      if \<not> truthy user_message then
        (Inl (Exception ''Payload must include 'inputText' or 'prompt' parameter''), st)
      else if \<not> truthy persona then
        (Inl (Exception ''Payload must include 'persona' parameter (student/teacher/administrator)''), st)
      else if \<not> truthy user_id then
        (Inl (Exception ''Payload must include 'user_id' parameter''), st)
      else if \<not> truthy context_session_id then
        (Inl (Exception (''Context must include 'session_id'' @ [CHR 0x27])), st)
      else
        (let region = region_name env (world st) in
         case get_memory_id env payload st of
           (Inl e, st1) \<Rightarrow> (Inl e, emit (PrintError ''invoke'' e) st1)
         | (Inr mid, st1) \<Rightarrow>
             (case with_memory_client env region st1 of
                (Some e, st2) \<Rightarrow> (Inl e, st2)
              | (None, st2) \<Rightarrow>
                  run_orchestrator env user_message persona persona_id whatsapp_phone_number
                    context_session_id
                    \<lparr> memory_id = mid, session_id = context_session_id, actor_id = user_id,
                      retrieval = retrieval_namespaces \<rparr>
                    region st2)))"

subsection \<open>The resolution order of the memory id, as the contract states it\<close>




subsection \<open>A sample runtime environment\<close>

text \<open>
  Concrete surroundings on which the runtime is run below. Given are: what the parameter
  store answers, the \<open>MEMORY_ID\<close> environment variable, what the gateway answers to the
  catalog request, and what the model invocation yields for a tool list. Everything else
  succeeds, and the world carries no information.
\<close>

definition demo_runtime_env ::
  "error + string \<Rightarrow> string option \<Rightarrow> error + tool list \<Rightarrow> (tool list \<Rightarrow> error + agent_result)
     \<Rightarrow> unit runtime_env" where
  "demo_runtime_env ssm envvar catalog model =
     \<lparr> region_name = (\<lambda>w. Some ''us-east-1''),
       ssm_get_parameter = (\<lambda>name w. (ssm, w)),
       getenv = (\<lambda>k. if k = ''MEMORY_ID'' then envvar else None),
       new_memory_client = (\<lambda>region w. (None, w)),
       check_memory_config = (\<lambda>config. None),
       new_session_manager = (\<lambda>config region w. (None, w)),
       mcp_enter = (\<lambda>w. (None, w)),
       mcp_exit = (\<lambda>w. (None, w)),
       list_tools_sync = (\<lambda>w. (catalog, w)),
       new_agent = (\<lambda>tools w. (None, w)),
       call_agent = (\<lambda>tools query w. (model tools, w)),
       str_of = (\<lambda>v. case v of PStr s \<Rightarrow> s | _ \<Rightarrow> ''?'') \<rparr>"

text \<open>A model invocation that succeeds with the fixed tools only.\<close>

definition base_tools_only :: "tool list \<Rightarrow> error + agent_result" where
  "base_tools_only tools =
     (if tools = base_tools then Inr (Plain ''Suas tarefas pendentes'')
      else Inl (ServiceError ''ValidationException''))"

text \<open>
  The same surroundings with a gateway whose session cannot be opened: the catalog would be
  empty, and the model answers with the fixed tools.
\<close>

definition gateway_unreachable :: "unit runtime_env" where
  "gateway_unreachable =
     (demo_runtime_env (Inr ''mem-1'') None (Inr []) base_tools_only)
       \<lparr>mcp_enter := (\<lambda>w. (Some (ServiceError ''BadGateway''), w))\<rparr>"

definition runtime_start :: "unit runtime" where
  "runtime_start = \<lparr> world = (), trace = [], memory_id_cache = None, memory_client_cache = None \<rparr>"

definition demo_payload :: "(string \<times> pyval) list" where
  "demo_payload =
     [(''inputText'', PStr ''Quais sao minhas tarefas?''), (''persona'', PStr ''student''),
      (''user_id'', PStr ''5511900000003''), (''persona_id'', PStr ''5511900000003''),
      (''whatsapp_phone_number'', PStr ''+5511900000003'')]"

section \<open>Mock data (models/core.py, mock\_data\_generator.py)\<close>

text \<open>
  The data classes. A field that several classes share by name carries the class in its
  name here (\<open>grade_course_id\<close> for \<open>Grade.course_id\<close>, and so on). A grade is a Python
  float; it is modelled as a rational number, and \<open>round(x, 1)\<close> as rounding to the nearest
  tenth with ties to the even tenth.
\<close>

record PendingTask =
  task_id :: string
  task_course_name :: string
  task_course_id :: string
  due_date :: string

record Course =
  course_id :: string
  course_name :: string
  teacher_name :: string

record Grade =
  grade_course_id :: string
  grade_course_name :: string
  grade :: rat

record StudentData =
  student_id :: string
  student_name :: string
  enrolled_courses :: "Course list"
  pending_tasks :: "PendingTask list"
  grades :: "Grade list"
  focus_areas :: "string list"

definition STUDENT_NAMES :: "string list" where
  "STUDENT_NAMES =
     [''Jo'' @ [CHR 0xE3] @ ''o Silva'', ''Maria Santos'', ''Pedro Oliveira'', ''Ana Costa'',
      ''Carlos Souza'', ''Juliana Lima'', ''Rafael Alves'', ''Beatriz Rocha'']"

definition TEACHER_NAMES :: "string list" where
  "TEACHER_NAMES =
     [''Prof. Silva'', ''Prof. Santos'', ''Prof. Oliveira'', ''Prof. Costa'',
      ''Prof. Souza'', ''Prof. Lima'', ''Prof. Alves'', ''Prof. Rocha'']"

definition COURSE_NAMES :: "string list" where
  "COURSE_NAMES =
     [''Mathematics'', ''Physics'', ''Chemistry'', ''Biology'',
      ''History'', ''Geography'', ''Literature'', ''English'',
      ''Physical Education'', ''Arts'', ''Music'', ''Computer Science'']"

subsection \<open>The random source\<close>

text \<open>
  \<open>secrets\<close> and \<open>SystemRandom\<close> draw from the operating system. A draw is an arbitrary
  natural number taken from the world. \<open>randbelow(n)\<close> is a draw reduced modulo \<open>n\<close>;
  \<open>random()\<close> is 53 random bits divided by \<open>2^53\<close>; \<open>uniform(a, b)\<close> is
  \<open>a + (b - a) * random()\<close>; \<open>choice(seq)\<close> is \<open>seq[randbelow(len(seq))]\<close>, used on the
  non-empty name lists only; \<open>sample(population, k)\<close> is the selection from a pool that the
  standard library uses for populations of this size, called here with \<open>k\<close> between 3 and 6
  on the twelve course names. \<open>today\<close> is \<open>date.today()\<close> as a day number counted from
  1970-01-01.
\<close>

record 'w random_env =
  urandom :: "'w \<Rightarrow> nat \<times> 'w"
  today :: "'w \<Rightarrow> nat"

definition randbelow :: "('w, 'z) random_env_scheme \<Rightarrow> nat \<Rightarrow> 'w \<Rightarrow> nat \<times> 'w" where
  "randbelow env n w = (case urandom env w of (r, w1) \<Rightarrow> (r mod n, w1))"

definition choice :: "('w, 'z) random_env_scheme \<Rightarrow> 'a list \<Rightarrow> 'w \<Rightarrow> 'a \<times> 'w" where
  "choice env xs w = (case randbelow env (length xs) w of (i, w1) \<Rightarrow> (xs ! i, w1))"

definition random_unit :: "('w, 'z) random_env_scheme \<Rightarrow> 'w \<Rightarrow> rat \<times> 'w" where
  "random_unit env w = (case urandom env w of (r, w1) \<Rightarrow> (of_nat (r mod 2 ^ 53) / 2 ^ 53, w1))"

definition uniform :: "('w, 'z) random_env_scheme \<Rightarrow> rat \<Rightarrow> rat \<Rightarrow> 'w \<Rightarrow> rat \<times> 'w" where
  "uniform env a b w = (case random_unit env w of (u, w1) \<Rightarrow> (a + (b - a) * u, w1))"

text \<open>
  The pool loop of \<open>sample\<close>: in round \<open>i\<close> the pool has \<open>m = n - i\<close> live entries; entry
  \<open>j = randbelow(m)\<close> is taken and replaced by the last live entry.
\<close>

fun sample_loop ::
  "('w, 'z) random_env_scheme \<Rightarrow> 'a list \<Rightarrow> nat \<Rightarrow> nat \<Rightarrow> 'w \<Rightarrow> 'a list \<times> 'w" where
  "sample_loop env pool m 0 w = ([], w)"
| "sample_loop env pool m (Suc k) w =
     (case randbelow env m w of
        (j, w1) \<Rightarrow>
          (case sample_loop env (pool[j := pool ! (m - 1)]) (m - 1) k w1 of
             (rest, w2) \<Rightarrow> (pool ! j # rest, w2)))"

definition sample :: "('w, 'z) random_env_scheme \<Rightarrow> 'a list \<Rightarrow> nat \<Rightarrow> 'w \<Rightarrow> 'a list \<times> 'w" where
  "sample env population k w = sample_loop env population (length population) k w"

text \<open>\<open>round(x, 1)\<close>.\<close>

definition round_half_even :: "rat \<Rightarrow> int" where
  "round_half_even y =
     (if y - of_int \<lfloor>y\<rfloor> < 1 / 2 then \<lfloor>y\<rfloor>
      else if 1 / 2 < y - of_int \<lfloor>y\<rfloor> then \<lfloor>y\<rfloor> + 1
      else if even \<lfloor>y\<rfloor> then \<lfloor>y\<rfloor> else \<lfloor>y\<rfloor> + 1)"

definition py_round1 :: "rat \<Rightarrow> rat" where
  "py_round1 x = of_int (round_half_even (x * 10)) / 10"

text \<open>\<open>s.upper()\<close>, for the letters of the course names (ASCII).\<close>

definition upper_char :: "char \<Rightarrow> char" where
  "upper_char c =
     (case map_of (zip ''abcdefghijklmnopqrstuvwxyz'' ''ABCDEFGHIJKLMNOPQRSTUVWXYZ'') c of
        Some u \<Rightarrow> u
      | None \<Rightarrow> c)"

subsection \<open>generate\_student\_data (lines 45-110)\<close>

text \<open>
  The inner loop, \<open>for j in range(num_tasks)\<close>: the due date is drawn first, then the
  task number; the task is appended to \<open>pending_tasks\<close>.
\<close>

fun tasks_loop ::
  "('w, 'z) random_env_scheme \<Rightarrow> string \<Rightarrow> string \<Rightarrow> nat \<Rightarrow> PendingTask list \<Rightarrow> 'w
     \<Rightarrow> PendingTask list \<times> 'w" where
  "tasks_loop env cname cid 0 tasks w = (tasks, w)"
| "tasks_loop env cname cid (Suc n) tasks w =
     (case randbelow env 30 w of
        (d, w1) \<Rightarrow>
          (case randbelow env 9000 w1 of
             (t, w2) \<Rightarrow>
               tasks_loop env cname cid n
                 (tasks @ [\<lparr> task_id = ''TASK-'' @ decimal (t + 1000),
                              task_course_name = cname,
                              task_course_id = cid,
                              due_date = isoformat_day (today env w + (d + 1)) \<rparr>])
                 w2))"

text \<open>\<open>f"{course_name[:4].upper()}-{100 + i}"\<close>\<close>

definition make_course_id :: "string \<Rightarrow> nat \<Rightarrow> string" where
  "make_course_id cname i = map upper_char (take 4 cname) @ ''-'' @ decimal (100 + i)"

text \<open>
  The loop \<open>for i, course_name in enumerate(selected_courses)\<close>, with the four lists it
  appends to: \<open>enrolled_courses\<close>, \<open>grades\<close>, \<open>pending_tasks\<close>, \<open>focus_areas\<close>.
\<close>

fun courses_loop ::
  "('w, 'z) random_env_scheme \<Rightarrow> nat \<Rightarrow> string list
     \<Rightarrow> Course list \<times> Grade list \<times> PendingTask list \<times> string list \<Rightarrow> 'w
     \<Rightarrow> (Course list \<times> Grade list \<times> PendingTask list \<times> string list) \<times> 'w" where
  "courses_loop env i [] acc w = (acc, w)"
| "courses_loop env i (cname # rest) (courses, gs, tasks, focus) w =
     (case choice env TEACHER_NAMES w of
        (tname, w1) \<Rightarrow>
          (case uniform env 3 10 w1 of
             (x, w2) \<Rightarrow>
               (case randbelow env 4 w2 of
                  (num_tasks, w3) \<Rightarrow>
                    (case tasks_loop env cname (make_course_id cname i) num_tasks tasks w3 of
                       (tasks1, w4) \<Rightarrow>
                         courses_loop env (i + 1) rest
                           (courses @ [\<lparr> course_id = make_course_id cname i,
                                         course_name = cname,
                                         teacher_name = tname \<rparr>],
                            gs @ [\<lparr> grade_course_id = make_course_id cname i,
                                    grade_course_name = cname,
                                    grade = py_round1 x \<rparr>],
                            tasks1,
                            if py_round1 x < 5 then focus @ [cname] else focus)
                           w4))))"

definition generate_student_data ::
  "('w, 'z) random_env_scheme \<Rightarrow> string option \<Rightarrow> 'w \<Rightarrow> StudentData \<times> 'w" where
  "generate_student_data env sid w =
     (case (case sid of
              None \<Rightarrow> (case randbelow env 999 w of (r, w0) \<Rightarrow> (''STU-'' @ zero_pad 3 (r + 1), w0))
            | Some s \<Rightarrow> (s, w)) of
        (sid1, w1) \<Rightarrow>
          (case choice env STUDENT_NAMES w1 of
             (sname, w2) \<Rightarrow>
               (case randbelow env 4 w2 of
                  (r, w3) \<Rightarrow>
                    (case sample env COURSE_NAMES (r + 3) w3 of
                       (selected_courses, w4) \<Rightarrow>
                         (case courses_loop env 0 selected_courses ([], [], [], []) w4 of
                            ((courses, gs, tasks, focus), w5) \<Rightarrow>
                              (\<lparr> student_id = sid1, student_name = sname,
                                 enrolled_courses = courses, pending_tasks = tasks,
                                 grades = gs, focus_areas = focus \<rparr>, w5))))))"

section \<open>The domain tools (educational, teacher and virtual secretary agents)\<close>

text \<open>
  What a tool needs beyond the random source. The teacher and the administrator data come
  from \<open>generate_teacher_data\<close> and \<open>generate_admin_data\<close>, which are taken as given here
  (types \<open>'t\<close> and \<open>'a\<close>), and so are the three functions that write the data, the persona
  and the query into the context text. \<open>sub_agent\<close> stands for constructing the specialised
  agent of the named tool, calling it on the context and taking the text of its reply.
\<close>

record ('w, 't, 'a) tool_env = "'w random_env" +
  generate_teacher_data :: "string option \<Rightarrow> 'w \<Rightarrow> 't \<times> 'w"
  generate_admin_data :: "'w \<Rightarrow> 'a \<times> 'w"
  student_context :: "StudentData \<Rightarrow> string \<Rightarrow> string \<Rightarrow> string"
  teacher_context :: "'t \<Rightarrow> string \<Rightarrow> string \<Rightarrow> string"
  admin_context :: "'a \<Rightarrow> string \<Rightarrow> string \<Rightarrow> string"
  sub_agent :: "string \<Rightarrow> string \<Rightarrow> 'w \<Rightarrow> (error + string) \<times> 'w"

text \<open>The part every tool ends with: the agent is called on the context.\<close>

definition ask_sub_agent ::
  "('w, 't, 'a) tool_env \<Rightarrow> string \<Rightarrow> string \<Rightarrow> 'w io \<Rightarrow> (error + string) \<times> 'w io" where
  "ask_sub_agent env name ctx st =
     (let st1 = emit (SubAgentCall name ctx) st in
      case sub_agent env name ctx (world st1) of (r, w) \<Rightarrow> (r, st1\<lparr>world := w\<rparr>))"

text \<open>virtual\_secretary\_agent.py, lines 13-133.\<close>

definition answer_admin_questions ::
  "('w, 't, 'a) tool_env \<Rightarrow> string \<Rightarrow> string \<Rightarrow> 'w io \<Rightarrow> (error + string) \<times> 'w io" where
  "answer_admin_questions env query persona st =
     (if persona \<noteq> ''administrator'' then
        (Inr (''Access denied: This tool is only available for administrator personas. ''
                @ ''Current persona: '' @ persona), st)
      else
        (let st1 = emit (GenerateMockData ''generate_admin_data'') st in
         case generate_admin_data env (world st1) of
           (admin_data, w) \<Rightarrow>
             ask_sub_agent env ''answer_admin_questions''
               (admin_context env admin_data persona query) (st1\<lparr>world := w\<rparr>)))"

text \<open>educational\_assistant\_agent.py, lines 67-176.\<close>

definition answer_student_questions ::
  "('w, 't, 'a) tool_env \<Rightarrow> string \<Rightarrow> string option \<Rightarrow> string \<Rightarrow> 'w io
     \<Rightarrow> (error + string) \<times> 'w io" where
  "answer_student_questions env query sid persona st =
     (if persona \<notin> set [''student'', ''administrator''] then
        (Inr (''Access denied: This tool is only available for student and administrator ''
                @ ''personas. Current persona: '' @ persona), st)
      else
        (let st1 = emit (GenerateMockData ''generate_student_data'') st in
         case generate_student_data env sid (world st1) of
           (student_data, w) \<Rightarrow>
             ask_sub_agent env ''answer_student_questions''
               (student_context env student_data persona query) (st1\<lparr>world := w\<rparr>)))"

text \<open>teacher\_assistant\_agent.py, lines 13-127.\<close>

definition answer_teacher_questions ::
  "('w, 't, 'a) tool_env \<Rightarrow> string \<Rightarrow> string option \<Rightarrow> string \<Rightarrow> 'w io
     \<Rightarrow> (error + string) \<times> 'w io" where
  "answer_teacher_questions env query tid persona st =
     (if persona \<notin> set [''teacher'', ''administrator''] then
        (Inr (''Access denied: This tool is only available for teacher and administrator ''
                @ ''personas. Current persona: '' @ persona), st)
      else
        (let st1 = emit (GenerateMockData ''generate_teacher_data'') st in
         case generate_teacher_data env tid (world st1) of
           (teacher_data, w) \<Rightarrow>
             ask_sub_agent env ''answer_teacher_questions''
               (teacher_context env teacher_data persona query) (st1\<lparr>world := w\<rparr>)))"

subsection \<open>A sample random source and tool environment\<close>

text \<open>
  A world that counts the draws made; draw number \<open>w\<close> yields \<open>2^50 * w\<close>. The day is
  2024-11-04. The tools' surroundings answer every question with a fixed text.
\<close>

definition demo_random :: "nat random_env" where
  "demo_random = \<lparr> urandom = (\<lambda>w. (2 ^ 50 * w, w + 1)), today = (\<lambda>w. 20031) \<rparr>"

definition demo_tool_env :: "(nat, unit, unit) tool_env" where
  "demo_tool_env =
     \<lparr> urandom = (\<lambda>w. (2 ^ 50 * w, w + 1)), today = (\<lambda>w. 20031),
       generate_teacher_data = (\<lambda>tid w. ((), w)),
       generate_admin_data = (\<lambda>w. ((), w)),
       student_context = (\<lambda>d persona query. query),
       teacher_context = (\<lambda>d persona query. query),
       admin_context = (\<lambda>d persona query. query),
       sub_agent = (\<lambda>name ctx w. (Inr ''Relatorio operacional'', w)) \<rparr>"

definition tool_start :: "nat io" where
  "tool_start = \<lparr> world = 0, trace = [] \<rparr>"

section \<open>Evaluation rules for the formatting and calendar functions\<close>

text \<open>
  The recursion of \<open>decimal\<close> is unfolded on numerals only, so that the simplifier
  computes the digits of a literal and stops.
\<close>

lemma decimal_numeral:
  "decimal (numeral k) =
     (if (numeral k :: nat) < 10 then [digit (numeral k)]
      else decimal (numeral k div 10) @ [digit (numeral k mod 10)])"
  by (rule decimal.simps)

lemma decimal_0: "decimal 0 = ''0''"
  by (simp add: decimal.simps [of 0] digit_def)

lemma decimal_1: "decimal (Suc 0) = ''1''"
  by (simp add: decimal.simps [of "Suc 0"] digit_def)

lemmas calendar_defs =
  civil_from_days_def civil_from_era_def civil_of_def year_of_era_def day_of_year_def
  month_index_def

lemmas format_defs = zero_pad_def decimal_numeral decimal_0 decimal_1 digit_def

section \<open>Two-digit fields are fixed-width and injective\<close>

lemma decimal_lt10: "n < 10 \<Longrightarrow> decimal n = [digit n]"
  by (simp add: decimal.simps [of n])

lemma decimal_lt100: "10 \<le> n \<Longrightarrow> n < 100 \<Longrightarrow> decimal n = [digit (n div 10), digit (n mod 10)]"
proof -
  assume a: "10 \<le> n" and b: "n < 100"
  from b have "n div 10 < 10" by simp
  then have "decimal (n div 10) = [digit (n div 10)]" by (rule decimal_lt10)
  with a show ?thesis by (simp add: decimal.simps [of n])
qed

lemma zero_pad_2: "n < 100 \<Longrightarrow> zero_pad 2 n = [digit (n div 10), digit (n mod 10)]"
proof (cases "n < 10")
  case True
  then show ?thesis by (simp add: zero_pad_def decimal_lt10 digit_def)
next
  case False
  assume "n < 100"
  with False show ?thesis by (simp add: zero_pad_def decimal_lt100)
qed

lemma digit_inj: "a < 10 \<Longrightarrow> b < 10 \<Longrightarrow> digit a = digit b \<Longrightarrow> a = b"
proof -
  assume a: "a < 10" and b: "b < 10" and e: "digit a = digit b"
  have d: "distinct ''0123456789''" by simp
  have l: "length ''0123456789'' = 10" by simp
  from e have "''0123456789'' ! a = ''0123456789'' ! b" by (simp add: digit_def)
  with d a b l show ?thesis by (simp only: nth_eq_iff_index_eq)
qed

lemma zero_pad_2_inj:
  assumes "a < 100" "b < 100" "zero_pad 2 a = zero_pad 2 b"
  shows "a = b"
proof -
  from assms have "digit (a div 10) = digit (b div 10)" "digit (a mod 10) = digit (b mod 10)"
    by (simp_all add: zero_pad_2)
  moreover from assms have "a div 10 < 10" "b div 10 < 10" "a mod 10 < 10" "b mod 10 < 10" by simp_all
  ultimately have "a div 10 = b div 10" and "a mod 10 = b mod 10"
    by (blast intro: digit_inj)+
  then have "a div 10 * 10 + a mod 10 = b div 10 * 10 + b mod 10" by simp
  then show ?thesis by simp
qed

section \<open>Session identifier\<close>

lemma clean_phone_normalized: "clean_phone p = normalized_phone p"
  by (induction p) (auto simp: clean_phone_def normalized_phone_def remove_char_def)

lemma strftime_hour_bucket: "strftime_hour (utcfromtimestamp t) = hour_bucket t"
proof -
  have "t div 86400 = t div 3600 div 24" by (simp add: div_mult2_eq)
  then show ?thesis
    by (simp add: strftime_hour_def utcfromtimestamp_def hour_bucket_def hour_index_def split: prod.splits)
qed

lemma derive_session_id_spec: "derive_session_id sha t p = spec_session_id sha t p"
  by (simp add: derive_session_id_def spec_session_id_def clean_phone_normalized strftime_hour_bucket first_8_hex_def)

lemma hour_bucket_cong: "hour_index t1 = hour_index t2 \<Longrightarrow> hour_bucket t1 = hour_bucket t2"
  by (simp add: hour_bucket_def)

lemma hour_bucket_split: "\<exists>d. hour_bucket t = d @ zero_pad 2 (hour_index t mod 24)"
  by (simp add: hour_bucket_def split: prod.splits)

lemma succ_mod_24: "(n + 1) mod 24 \<noteq> (n::nat) mod 24"
  by (simp add: mod_Suc)

lemma hour_index_next: "hour_index (t + 3600) = hour_index t + 1"
  by (simp add: hour_index_def)

lemma hour_bucket_next: "hour_bucket (t + 3600) \<noteq> hour_bucket t"
proof
  let ?A = "zero_pad 2 (hour_index (t + 3600) mod 24)"
  let ?B = "zero_pad 2 (hour_index t mod 24)"
  assume e: "hour_bucket (t + 3600) = hour_bucket t"
  obtain d1 where d1: "hour_bucket (t + 3600) = d1 @ ?A"
    using hour_bucket_split [of "t + 3600"] ..
  obtain d2 where d2: "hour_bucket t = d2 @ ?B"
    using hour_bucket_split [of t] ..
  have b1: "hour_index (t + 3600) mod 24 < 100"
    by (rule less_trans [of _ 24]) simp_all
  have b2: "hour_index t mod 24 < 100"
    by (rule less_trans [of _ 24]) simp_all
  have "length ?A = 2" "length ?B = 2"
    using b1 b2 by (simp_all add: zero_pad_2)
  then have l: "length ?A = length ?B" by (simp only:)
  have "d1 @ ?A = hour_bucket (t + 3600)" by (rule d1 [symmetric])
  also have "\<dots> = hour_bucket t" by (rule e)
  also have "\<dots> = d2 @ ?B" by (rule d2)
  finally have "d1 @ ?A = d2 @ ?B" .
  moreover have "(d1 @ ?A = d2 @ ?B) = (d1 = d2 \<and> ?A = ?B)"
    by (rule append_eq_append_conv) (rule disjI2, rule l)
  ultimately have z: "?A = ?B" by blast
  from b1 b2 z have "hour_index (t + 3600) mod 24 = hour_index t mod 24"
    by (rule zero_pad_2_inj)
  then have "(hour_index t + 1) mod 24 = hour_index t mod 24"
    by (simp only: hour_index_next)
  then show False using succ_mod_24 by blast
qed

text \<open>
  Claim C3. The session id the handler derives is
  \<open>"whatsapp-" + normalized phone + "-" + UTC hour bucket + "-" + first 8 hex characters of
  sha256(raw phone)\<close>; two derivations for the same phone whose instants lie in the same UTC
  hour give the same id, and a derivation one hour (3600 seconds) later gives a different id.
  The hash function is arbitrary: only its being a function of the phone is used.
\<close>

theorem session_id_contract:
  "derive_session_id sha t phone = spec_session_id sha t phone
   \<and> (hour_index t1 = hour_index t2 \<longrightarrow>
        derive_session_id sha t1 phone = derive_session_id sha t2 phone)
   \<and> derive_session_id sha (t + 3600) phone \<noteq> derive_session_id sha t phone"
proof (intro conjI impI)
  show "derive_session_id sha t phone = spec_session_id sha t phone"
    by (rule derive_session_id_spec)
next
  assume "hour_index t1 = hour_index t2"
  then have "hour_bucket t1 = hour_bucket t2" by (rule hour_bucket_cong)
  then show "derive_session_id sha t1 phone = derive_session_id sha t2 phone"
    by (simp add: derive_session_id_spec spec_session_id_def)
next
  show "derive_session_id sha (t + 3600) phone \<noteq> derive_session_id sha t phone"
    by (simp add: derive_session_id_spec spec_session_id_def hour_bucket_next)
qed

text \<open>
  The contract at a concrete message: 2024-11-04 10:00:00 UTC and 10:59:59 UTC fall in one
  bucket, 11:00:00 UTC in the next.
\<close>

theorem session_id_contract_witness:
  "derive_session_id (\<lambda>s. ''9f86d081884c7d65'') 1730714400 ''+55 11 99999-9999''
     = ''whatsapp-5511999999999-2024-11-04-10-9f86d081''
   \<and> hour_index 1730714400 = hour_index 1730717999
   \<and> derive_session_id (\<lambda>s. ''9f86d081884c7d65'') 1730717999 ''+55 11 99999-9999''
     = ''whatsapp-5511999999999-2024-11-04-10-9f86d081''
   \<and> derive_session_id (\<lambda>s. ''9f86d081884c7d65'') (1730714400 + 3600) ''+55 11 99999-9999''
     \<noteq> ''whatsapp-5511999999999-2024-11-04-10-9f86d081''"
proof -
  let ?sha = "\<lambda>s::string. ''9f86d081884c7d65''"
  let ?p = "''+55 11 99999-9999''"
  let ?id = "''whatsapp-5511999999999-2024-11-04-10-9f86d081''"
  have h: "hour_index 1730714400 = hour_index 1730717999" by (simp add: hour_index_def)
  have s: "spec_session_id ?sha 1730714400 ?p = ?id"
    by (simp add: spec_session_id_def normalized_phone_def hour_bucket_def hour_index_def
        first_8_hex_def calendar_defs format_defs)
  note c = session_id_contract [of ?sha 1730714400 ?p 1730714400 1730717999]
  from c have c1: "derive_session_id ?sha 1730714400 ?p = spec_session_id ?sha 1730714400 ?p"
    by (rule conjunct1)
  from c have c2: "hour_index 1730714400 = hour_index 1730717999 \<longrightarrow>
      derive_session_id ?sha 1730714400 ?p = derive_session_id ?sha 1730717999 ?p"
    by (rule conjunct1 [OF conjunct2])
  from c have c3: "derive_session_id ?sha (1730714400 + 3600) ?p \<noteq> derive_session_id ?sha 1730714400 ?p"
    by (rule conjunct2 [OF conjunct2])
  have a: "derive_session_id ?sha 1730714400 ?p = ?id"
    using c1 s by (rule trans)
  have b: "derive_session_id ?sha 1730717999 ?p = ?id"
    using c2 [rule_format, OF h, symmetric] a by (rule trans)
  have d: "derive_session_id ?sha (1730714400 + 3600) ?p \<noteq> ?id"
    using c3 unfolding a .
  show ?thesis
    using a h b d by (intro conjI)
qed

section \<open>Persona resolution\<close>

text \<open>
  When the attribute loop returns, it returns the values of the last \<open>phone_number\<close> and
  the last \<open>custom:persona\<close> attribute.
\<close>

lemma scan_attributes_result:
  "scan_attributes attrs a b = Inr (ph, pe) \<Longrightarrow>
     ph = (if filter (\<lambda>x. fst x = ''phone_number'') attrs = [] then a
           else snd (last (filter (\<lambda>x. fst x = ''phone_number'') attrs)))
   \<and> pe = (if filter (\<lambda>x. fst x = ''custom:persona'') attrs = [] then b
           else snd (last (filter (\<lambda>x. fst x = ''custom:persona'') attrs)))"
proof (induction attrs a b rule: scan_attributes.induct)
  case (1 phone_attr persona_attr)
  then show ?case by simp
next
  case (2 name v attrs phone_attr persona_attr)
  show ?case
  proof (cases "name = ''phone_number''")
    case True
    with "2.prems" obtain x where v: "v = Some x"
      and r: "scan_attributes attrs (Some x) persona_attr = Inr (ph, pe)"
      by (cases v) auto
    from "2.IH"(1) [OF True v r] True v show ?thesis by auto
  next
    case False
    show ?thesis
    proof (cases "name = ''custom:persona''")
      case True
      with False "2.prems" obtain x where v: "v = Some x"
        and r: "scan_attributes attrs phone_attr (Some x) = Inr (ph, pe)"
        by (cases v) auto
      from "2.IH"(2) [OF False True v r] False True v show ?thesis by auto
    next
      case nb: False
      with False "2.prems" have r: "scan_attributes attrs phone_attr persona_attr = Inr (ph, pe)"
        by simp
      from "2.IH"(3) [OF False nb r] False nb show ?thesis by auto
    qed
  qed
qed

lemma scan_attributes_last_value:
  assumes "scan_attributes attrs None None = Inr (ph, pe)"
  shows "ph = last_value ''phone_number'' attrs" and "pe = last_value ''custom:persona'' attrs"
  using scan_attributes_result [OF assms]
  by (auto simp: last_value_def split: list.splits)


lemma no_match_in_Cons: "no_match_in pn (u # us) = (\<not> user_matches pn u \<and> no_match_in pn us)"
  by (simp add: no_match_in_def)

lemma no_match_in_append: "no_match_in pn (us @ vs) = (no_match_in pn us \<and> no_match_in pn vs)"
  by (simp add: no_match_in_def)

lemma scan_users_skip:
  assumes "\<not> user_matches pn u"
  shows "scan_users pn (u # us) = scan_users pn us \<or> (\<exists>e. scan_users pn (u # us) = Inl e)"
proof (cases "scan_attributes (attributes_of u) None None")
  case (Inl e)
  then show ?thesis by (simp add: attributes_of_def)
next
  case (Inr r)
  obtain ph pe where r: "r = (ph, pe)" by (cases r)
  with Inr have "ph = last_value ''phone_number'' (attributes_of u)"
    by (simp add: scan_attributes_last_value)
  with assms have "ph \<noteq> Some pn" by (simp add: user_matches_def)
  with Inr r show ?thesis by (simp add: attributes_of_def)
qed

lemma scan_users_no_match:
  "no_match_in pn us \<Longrightarrow>
     scan_users pn (us @ vs) = scan_users pn vs \<or> (\<exists>e. scan_users pn (us @ vs) = Inl e)"
proof (induction us)
  case Nil
  then show ?case by simp
next
  case (Cons u us)
  then have nm: "\<not> user_matches pn u" and rest: "no_match_in pn us"
    by (simp_all add: no_match_in_Cons)
  from scan_users_skip [OF nm, of "us @ vs"] Cons.IH [OF rest] show ?case by auto
qed

lemma scan_users_match_lacking:
  assumes m: "user_matches pn u" and l: "lacks_persona u" and ne: "pn \<noteq> []"
  shows "scan_users pn (u # us) = Inr (Some ''student'') \<or> (\<exists>e. scan_users pn (u # us) = Inl e)"
proof (cases "scan_attributes (attributes_of u) None None")
  case (Inl e)
  then show ?thesis by (simp add: attributes_of_def)
next
  case (Inr r)
  obtain ph pe where r: "r = (ph, pe)" by (cases r)
  with Inr have ph: "ph = last_value ''phone_number'' (attributes_of u)"
    and pe: "pe = last_value ''custom:persona'' (attributes_of u)"
    by (simp_all add: scan_attributes_last_value)
  from ph m have ph': "ph = Some pn" by (simp add: user_matches_def)
  from pe l have "pe = None \<or> pe = Some []" by (simp add: lacks_persona_def)
  with Inr r ph' ne show ?thesis by (auto simp: attributes_of_def)
qed

lemma users_of_Cons: "users_of (p # ps) = page_users p @ users_of ps"
  by (simp add: users_of_def)

lemma scan_pages_no_match:
  "no_match_in pn (users_of ps) \<Longrightarrow>
     scan_pages pn (ps @ rest) = scan_pages pn rest \<or> (\<exists>e. scan_pages pn (ps @ rest) = Inl e)"
proof (induction ps)
  case Nil
  then show ?case by simp
next
  case (Cons p ps)
  show ?case
  proof (cases p)
    case (PageError e)
    then show ?thesis by simp
  next
    case (Page us)
    with Cons.prems have a: "no_match_in pn us" and b: "no_match_in pn (users_of ps)"
      by (simp_all add: users_of_Cons page_users_def no_match_in_append)
    from scan_users_no_match [OF a, of "[]"]
    have "scan_users pn us = Inr None \<or> (\<exists>e. scan_users pn us = Inl e)" by simp
    with Cons.IH [OF b] Page show ?thesis by auto
  qed
qed

lemma e164_nonempty: "e164 s \<noteq> []"
  by (cases s) (simp_all add: e164_def startswith_def)

lemma scan_pages_service_error:
  assumes "service_error_before_match pn pages"
  shows "\<exists>e. scan_pages pn pages = Inl e"
proof -
  from assms obtain ps e rest where p: "pages = ps @ PageError e # rest"
    and n: "no_match_in pn (users_of ps)"
    by (auto simp: service_error_before_match_def)
  from scan_pages_no_match [OF n, of "PageError e # rest"] p show ?thesis by auto
qed

lemma scan_pages_no_user:
  assumes "no_user_matches pn pages"
  shows "scan_pages pn pages = Inr None \<or> (\<exists>e. scan_pages pn pages = Inl e)"
  using scan_pages_no_match [of pn pages "[]"] assms by (simp add: no_user_matches_def)

lemma scan_pages_lacking:
  assumes "first_match_lacks_persona pn pages" and ne: "pn \<noteq> []"
  shows "scan_pages pn pages = Inr (Some ''student'') \<or> (\<exists>e. scan_pages pn pages = Inl e)"
proof -
  from assms obtain ps us u us' rest where p: "pages = ps @ Page (us @ u # us') # rest"
    and n1: "no_match_in pn (users_of ps)" and n2: "no_match_in pn us"
    and m: "user_matches pn u" and l: "lacks_persona u"
    by (auto simp: first_match_lacks_persona_def no_match_in_append)
  from scan_users_match_lacking [OF m l ne, of us'] scan_users_no_match [OF n2, of "u # us'"]
  have "scan_users pn (us @ u # us') = Inr (Some ''student'')
        \<or> (\<exists>e. scan_users pn (us @ u # us') = Inl e)" by auto
  then have "scan_pages pn (Page (us @ u # us') # rest) = Inr (Some ''student'')
        \<or> (\<exists>e. scan_pages pn (Page (us @ u # us') # rest) = Inl e)" by auto
  with scan_pages_no_match [OF n1, of "Page (us @ u # us') # rest"] p show ?thesis by auto
qed

lemma get_user_persona_by_phone_student:
  assumes pages: "list_users env (world st) = (pages, w)"
    and r: "scan_pages (e164 s) pages = Inr None \<or> scan_pages (e164 s) pages = Inr (Some ''student'')
            \<or> (\<exists>e. scan_pages (e164 s) pages = Inl e)"
  shows "fst (get_user_persona_by_phone env (PStr s) st) = Inr ''student''"
  using r pages
  by (auto simp: get_user_persona_by_phone_def emit_def e164_def Let_def)

text \<open>
  Claim C2. Let the directory yield the pages \<open>pages\<close> and let the phone number be a
  string. If the paginator raises before any user has matched the (normalised) number, or
  no user of the directory matches it, or the first user that matches has no persona
  attribute, then \<open>get_user_persona_by_phone\<close> returns \<open>'student'\<close>; it returns, it does not
  raise.
\<close>

theorem persona_defaults_to_student:
  assumes "list_users env (world st) = (pages, w)"
    and "service_error_before_match (e164 s) pages
         \<or> no_user_matches (e164 s) pages
         \<or> first_match_lacks_persona (e164 s) pages"
  shows "fst (get_user_persona_by_phone env (PStr s) st) = Inr ''student''"
proof -
  from assms(2) scan_pages_service_error [of "e164 s" pages]
    scan_pages_no_user [of "e164 s" pages]
    scan_pages_lacking [of "e164 s" pages, OF _ e164_nonempty]
  have "scan_pages (e164 s) pages = Inr None \<or> scan_pages (e164 s) pages = Inr (Some ''student'')
        \<or> (\<exists>e. scan_pages (e164 s) pages = Inl e)" by blast
  with assms(1) show ?thesis by (rule get_user_persona_by_phone_student)
qed


text \<open>Unfolding rules for the sample inputs and for the directory notions.\<close>

lemmas demo_defs = demo_env_def demo_directory_def failing_directory_def demo_user_def
  demo_json_loads_def text_entry_def demo_message_def demo_value_def status_entry_def status_value_def sns_record_def start_def

lemmas directory_defs = no_match_in_def users_of_def page_users_def user_matches_def
  lacks_persona_def last_value_def attributes_of_def e164_def startswith_def

lemma service_error_before_matchI:
  "no_match_in pn (users_of ps) \<Longrightarrow> service_error_before_match pn (ps @ PageError e # rest)"
  unfolding service_error_before_match_def by blast

lemma first_match_lacks_personaI:
  "no_match_in pn (users_of ps @ us) \<Longrightarrow> user_matches pn u \<Longrightarrow> lacks_persona u \<Longrightarrow>
     first_match_lacks_persona pn (ps @ Page (us @ u # us') # rest)"
  unfolding first_match_lacks_persona_def by blast

text \<open>
  The three cases on the sample directories: the second page fails before the number is
  found; the number is in no page; the user with the number has no persona attribute.
\<close>

theorem persona_defaults_to_student_witness:
  "fst (get_user_persona_by_phone (demo_env failing_directory (Inr PNone)) (PStr ''5511900000003'') start)
     = Inr ''student''
   \<and> fst (get_user_persona_by_phone (demo_env demo_directory (Inr PNone)) (PStr ''5511999999999'') start)
     = Inr ''student''
   \<and> fst (get_user_persona_by_phone (demo_env demo_directory (Inr PNone)) (PStr ''+5511900000005'') start)
     = Inr ''student''"
proof (intro conjI)
  let ?admin = "demo_user ''admin_demo'' ''+5511900000001'' (Some ''administrator'')"
  have "no_match_in (e164 ''5511900000003'') (users_of [Page [?admin]])"
    by (simp add: directory_defs demo_defs)
  then have "service_error_before_match (e164 ''5511900000003'')
      ([Page [?admin]] @ PageError (ServiceError ''TooManyRequestsException'') # [])"
    by (rule service_error_before_matchI)
  then have a: "service_error_before_match (e164 ''5511900000003'') failing_directory"
    by (simp add: failing_directory_def)
  have l: "list_users (demo_env failing_directory (Inr PNone)) (world start) = (failing_directory, ())"
    by (simp add: demo_env_def)
  from a show "fst (get_user_persona_by_phone (demo_env failing_directory (Inr PNone))
      (PStr ''5511900000003'') start) = Inr ''student''"
    by (intro persona_defaults_to_student [OF l] disjI1)
next
  have b: "no_user_matches (e164 ''5511999999999'') demo_directory"
    by (simp add: no_user_matches_def directory_defs demo_defs)
  have l: "list_users (demo_env demo_directory (Inr PNone)) (world start) = (demo_directory, ())"
    by (simp add: demo_env_def)
  from b show "fst (get_user_persona_by_phone (demo_env demo_directory (Inr PNone))
      (PStr ''5511999999999'') start) = Inr ''student''"
    by (intro persona_defaults_to_student [OF l] disjI2 disjI1)
next
  let ?p1 = "Page [demo_user ''admin_demo'' ''+5511900000001'' (Some ''administrator''),
            demo_user ''professor_demo'' ''+5511900000002'' (Some ''professor'')]"
  let ?us = "[demo_user ''student_demo'' ''+5511900000003'' (Some ''student''),
            demo_user ''guest_demo'' ''+5511900000004'' (Some ''guest'')]"
  let ?u = "demo_user ''new_demo'' ''+5511900000005'' None"
  have "no_match_in (e164 ''+5511900000005'') (users_of [?p1] @ ?us)"
    by (simp add: directory_defs demo_defs)
  moreover have "user_matches (e164 ''+5511900000005'') ?u"
    by (simp add: directory_defs demo_defs)
  moreover have "lacks_persona ?u"
    by (simp add: directory_defs demo_defs)
  ultimately have "first_match_lacks_persona (e164 ''+5511900000005'')
      ([?p1] @ Page (?us @ ?u # []) # [])"
    by (rule first_match_lacks_personaI)
  then have c: "first_match_lacks_persona (e164 ''+5511900000005'') demo_directory"
    by (simp add: demo_directory_def)
  have l: "list_users (demo_env demo_directory (Inr PNone)) (world start) = (demo_directory, ())"
    by (simp add: demo_env_def)
  from c show "fst (get_user_persona_by_phone (demo_env demo_directory (Inr PNone))
      (PStr ''+5511900000005'') start) = Inr ''student''"
    by (intro persona_defaults_to_student [OF l] disjI2)
qed

section \<open>Skipped envelopes\<close>

lemma first_message_skips:
  assumes "''statuses'' \<in> fst ` set value
           \<or> map_of value ''messages'' = None
           \<or> (\<exists>m. map_of value ''messages'' = Some m \<and> \<not> truthy m)"
  shows "first_message (PDict value) = Inr None"
  using assms by (auto simp: first_message_def bind_err_def)

text \<open>
  Claim C6. Let a record decode to an envelope whose \<open>value\<close> is an object that has a
  \<open>statuses\<close> key, or has no \<open>messages\<close> key, or has a \<open>messages\<close> entry that is empty (any
  falsy value). Then processing the record returns normally and leaves the state as it
  was: the trace gets no event, so the runtime is not invoked and nothing is sent; and the
  loop goes on with the remaining records from that same state.
\<close>

theorem status_or_empty_envelope_skipped:
  assumes "envelope_value env r = Inr (Some (PDict value))"
    and "''statuses'' \<in> fst ` set value
         \<or> map_of value ''messages'' = None
         \<or> (\<exists>m. map_of value ''messages'' = Some m \<and> \<not> truthy m)"
  shows "process_record env r st = (Inr (), st)
         \<and> process_records env (r # rs) st = process_records env rs st"
proof -
  from assms(2) have "first_message (PDict value) = Inr None"
    by (rule first_message_skips)
  with assms(1) have "process_record env r st = (Inr (), st)"
    by (simp add: process_record_def)
  then show ?thesis by simp
qed

lemma demo_envelope_status:
  "envelope_value (demo_env pages receipt) (sns_record ''status'') = Inr (Some (PDict status_value))"
  by (simp add: envelope_value_def bind_err_def loads_def demo_env_def demo_json_loads_def
      sns_record_def status_entry_def)

text \<open>The sample status update, alone and followed by another one.\<close>

theorem status_or_empty_envelope_skipped_witness:
  "process_record (demo_env demo_directory (Inr PNone)) (sns_record ''status'') start = (Inr (), start)
   \<and> process_records (demo_env demo_directory (Inr PNone))
        [sns_record ''status'', sns_record ''status''] start = (Inr (), start)"
proof -
  have s: "''statuses'' \<in> fst ` set status_value
         \<or> map_of status_value ''messages'' = None
         \<or> (\<exists>m. map_of status_value ''messages'' = Some m \<and> \<not> truthy m)"
    by (simp add: status_value_def)
  note t = status_or_empty_envelope_skipped [OF demo_envelope_status s,
      of demo_directory "Inr PNone" start]
  from t [of "[sns_record ''status'']"] t [of "[]"] show ?thesis by simp
qed


section \<open>Read receipt\<close>

lemma markAsRead_returns: "\<exists>r. fst (markAsRead env msg_id st) = Inr r"
  by (auto simp: markAsRead_def Let_def split: prod.splits sum.splits)

lemma markAsRead_failure:
  assumes "send_whatsapp_message env (meta_message msg_id) (world st) = (Inl e, w)"
  shows "markAsRead env msg_id st =
           (Inr PNone,
            st\<lparr>world := w,
               trace := trace st @ [SendWhatsappMessage (meta_message msg_id),
                                    PrintError ''markAsRead'' e]\<rparr>)"
  using assms by (simp add: markAsRead_def emit_def)

lemma markAsRead_trace:
  "\<exists>es. trace (snd (markAsRead env msg_id st))
          = trace st @ SendWhatsappMessage (meta_message msg_id) # es
        \<and> forwarded_personas es = []"
  by (auto simp: markAsRead_def emit_def Let_def split: prod.splits sum.splits)

section \<open>Persona lookup and forwarding\<close>

lemma forwarded_personas_append:
  "forwarded_personas (xs @ ys) = forwarded_personas xs @ forwarded_personas ys"
  by (induction xs rule: forwarded_personas.induct) simp_all

lemma get_user_persona_by_phone_returns:
  "\<exists>d st1 es. get_user_persona_by_phone env phone st = (Inr d, st1)
      \<and> trace st1 = trace st @ es \<and> forwarded_personas es = []"
  by (cases phone)
     (auto simp: get_user_persona_by_phone_def emit_def Let_def
           split: prod.splits sum.splits option.splits)

lemma after_read_receipt_trace:
  assumes d: "fst (get_user_persona_by_phone env sender_phone st) = Inr d"
  shows "\<exists>es. trace (snd (after_read_receipt env value message message_type sender_phone st))
                = trace st @ es
              \<and> (forwarded_personas es = []
                   \<or> forwarded_personas es = [Some (PStr (remap_persona d))])"
proof -
  obtain d' st1 es1 where g: "get_user_persona_by_phone env sender_phone st = (Inr d', st1)"
    and t1: "trace st1 = trace st @ es1" and f1: "forwarded_personas es1 = []"
    using get_user_persona_by_phone_returns by blast
  from g d have dd: "d' = d" by simp
  show ?thesis
  proof (cases "bind_err (user_message_of env message message_type)
                  (\<lambda>user_message. bind_err (user_name_of value) (\<lambda>user_name. Inr user_message))")
    case (Inl e)
    then show ?thesis by (simp add: after_read_receipt_def)
  next
    case (Inr user_message)
    show ?thesis
    proof (cases sender_phone)
      case (PStr sp)
      let ?sid = "derive_session_id (sha256_hexdigest env) (utcnow env (world st1)) sp"
      let ?payload = "build_payload user_message (remap_persona d) sp"
      let ?es = "es1 @ [InvokeAgentRuntime ?sid ?payload]"
      have "trace (snd (after_read_receipt env value message message_type sender_phone st))
              = trace st @ ?es"
        using Inr g dd t1 PStr
        by (auto simp: after_read_receipt_def emit_def Let_def split: prod.splits sum.splits)
      moreover have "forwarded_personas ?es = [Some (PStr (remap_persona d))]"
        using f1 by (simp add: forwarded_personas_append build_payload_def)
      ultimately show ?thesis by blast
    qed (use Inr g dd t1 f1 in \<open>auto simp: after_read_receipt_def\<close>)
  qed
qed


lemma after_read_receipt_extends:
  "\<exists>es. trace (snd (after_read_receipt env value message message_type sender_phone st))
          = trace st @ es"
proof -
  obtain d st1 es1 where "get_user_persona_by_phone env sender_phone st = (Inr d, st1)"
    using get_user_persona_by_phone_returns by blast
  then have "fst (get_user_persona_by_phone env sender_phone st) = Inr d" by simp
  from after_read_receipt_trace [OF this] show ?thesis by blast
qed

text \<open>
  Claim C9. For a message whose fields can be read: \<open>markAsRead\<close> always returns; when
  sending the receipt raises, it returns \<open>None\<close> after printing the error; processing the
  message is, in every case, the rest of the processing (text, persona lookup, runtime
  invocation) run from the state \<open>markAsRead\<close> leaves; and the receipt is the first event
  the message adds to the trace, hence before the directory lookup and the invocation.
\<close>

theorem read_receipt_best_effort:
  assumes "message_fields message = Inr (message_type, sender_phone, message_id)"
  shows "(\<exists>r. fst (markAsRead env message_id st) = Inr r)
       \<and> (\<forall>e w. send_whatsapp_message env (meta_message message_id) (world st) = (Inl e, w) \<longrightarrow>
             markAsRead env message_id st =
               (Inr PNone,
                st\<lparr>world := w,
                   trace := trace st @ [SendWhatsappMessage (meta_message message_id),
                                        PrintError ''markAsRead'' e]\<rparr>))
       \<and> process_message env value message st =
             after_read_receipt env value message message_type sender_phone
               (snd (markAsRead env message_id st))
       \<and> (\<exists>es. trace (snd (process_message env value message st))
               = trace st @ SendWhatsappMessage (meta_message message_id) # es)"
proof (intro conjI allI impI)
  show "\<exists>r. fst (markAsRead env message_id st) = Inr r"
    by (rule markAsRead_returns)
next
  fix e w
  assume "send_whatsapp_message env (meta_message message_id) (world st) = (Inl e, w)"
  then show "markAsRead env message_id st =
               (Inr PNone,
                st\<lparr>world := w,
                   trace := trace st @ [SendWhatsappMessage (meta_message message_id),
                                        PrintError ''markAsRead'' e]\<rparr>)"
    by (rule markAsRead_failure)
next
  obtain r where "fst (markAsRead env message_id st) = Inr r"
    using markAsRead_returns by blast
  then obtain st1 where m: "markAsRead env message_id st = (Inr r, st1)"
    by (cases "markAsRead env message_id st") simp
  show p: "process_message env value message st =
             after_read_receipt env value message message_type sender_phone
               (snd (markAsRead env message_id st))"
    by (simp add: process_message_def assms m)
  obtain es1 where t1: "trace (snd (markAsRead env message_id st))
      = trace st @ SendWhatsappMessage (meta_message message_id) # es1"
    using markAsRead_trace by blast
  obtain es2 where "trace (snd (after_read_receipt env value message message_type sender_phone
        (snd (markAsRead env message_id st))))
      = trace (snd (markAsRead env message_id st)) @ es2"
    using after_read_receipt_extends by blast
  with p t1 have "trace (snd (process_message env value message st))
      = trace st @ SendWhatsappMessage (meta_message message_id) # (es1 @ es2)"
    by simp
  then show "\<exists>es. trace (snd (process_message env value message st))
               = trace st @ SendWhatsappMessage (meta_message message_id) # es"
    by blast
qed


text \<open>Unfolding rules to run the handler on the sample inputs.\<close>

lemmas handler_defs = lambda_handler_def process_record_def process_message_def
  after_read_receipt_def envelope_value_def first_message_def message_fields_def
  user_message_of_def user_name_of_def read_response_def loads_def bind_err_def
  markAsRead_def get_user_persona_by_phone_def emit_def meta_message_def build_payload_def
  remap_persona_def startswith_def usuario_def

lemmas session_defs = derive_session_id_def clean_phone_def remove_char_def strftime_hour_def
  utcfromtimestamp_def

text \<open>
  A message from the sample student while the messaging service refuses the receipt: the
  error is printed, and the lookup and the invocation follow.
\<close>

theorem read_receipt_best_effort_witness:
  "message_fields (demo_message ''+5511900000003'')
     = Inr (PStr ''text'', PStr ''+5511900000003'', PStr ''wamid.1'')
   \<and> markAsRead (demo_env demo_directory (Inl (ServiceError ''AccessDeniedException'')))
         (PStr ''wamid.1'') start
       = (Inr PNone,
          \<lparr>world = (),
           trace = [SendWhatsappMessage (meta_message (PStr ''wamid.1'')),
                    PrintError ''markAsRead'' (ServiceError ''AccessDeniedException'')]\<rparr>)
   \<and> process_message (demo_env demo_directory (Inl (ServiceError ''AccessDeniedException'')))
         (demo_value ''+5511900000003'') (demo_message ''+5511900000003'') start
       = (Inr (),
          \<lparr>world = (),
           trace = [SendWhatsappMessage (meta_message (PStr ''wamid.1'')),
                    PrintError ''markAsRead'' (ServiceError ''AccessDeniedException''),
                    ListUsers,
                    InvokeAgentRuntime ''whatsapp-5511900000003-2024-11-04-10-9f86d081''
                      (build_payload (PStr ''Quais sao minhas tarefas?'') ''student''
                         ''+5511900000003'')]\<rparr>)"
proof -
  let ?env = "demo_env demo_directory (Inl (ServiceError ''AccessDeniedException''))"
  let ?m = "demo_message ''+5511900000003''"
  let ?v = "demo_value ''+5511900000003''"
  let ?st1 = "\<lparr>world = (),
           trace = [SendWhatsappMessage (meta_message (PStr ''wamid.1'')),
                    PrintError ''markAsRead'' (ServiceError ''AccessDeniedException'')]\<rparr>"
  have f: "message_fields ?m = Inr (PStr ''text'', PStr ''+5511900000003'', PStr ''wamid.1'')"
    by (simp add: message_fields_def demo_message_def bind_err_def)
  note t = read_receipt_best_effort [OF f, of ?env start ?v]
  have s: "send_whatsapp_message ?env (meta_message (PStr ''wamid.1'')) (world start)
             = (Inl (ServiceError ''AccessDeniedException''), ())"
    by (simp add: demo_env_def)
  from t s have m: "markAsRead ?env (PStr ''wamid.1'') start = (Inr PNone, ?st1)"
    by (simp add: start_def)
  from t have "process_message ?env ?v ?m start
      = after_read_receipt ?env ?v ?m (PStr ''text'') (PStr ''+5511900000003'')
          (snd (markAsRead ?env (PStr ''wamid.1'') start))"
    by blast
  also have "\<dots> = after_read_receipt ?env ?v ?m (PStr ''text'') (PStr ''+5511900000003'') ?st1"
    by (simp only: m snd_conv)
  also have "\<dots> = (Inr (),
          \<lparr>world = (),
           trace = [SendWhatsappMessage (meta_message (PStr ''wamid.1'')),
                    PrintError ''markAsRead'' (ServiceError ''AccessDeniedException''),
                    ListUsers,
                    InvokeAgentRuntime ''whatsapp-5511900000003-2024-11-04-10-9f86d081''
                      (build_payload (PStr ''Quais sao minhas tarefas?'') ''student''
                         ''+5511900000003'')]\<rparr>)"
    by (simp add: handler_defs session_defs demo_defs calendar_defs format_defs)
  finally show ?thesis using f m by blast
qed


section \<open>The forwarded persona\<close>

text \<open>
  Claim C8, as the code has it. Let \<open>d\<close> be what the directory lookup returns for the
  sender. The rest of the processing adds at most one invocation to the trace, and the
  persona in its payload is \<open>d\<close> with \<open>professor\<close> replaced by \<open>teacher\<close>: \<open>professor\<close> is
  presented as \<open>teacher\<close>; when \<open>d\<close> is one of \<open>student\<close>, \<open>professor\<close>, \<open>teacher\<close>,
  \<open>administrator\<close> the forwarded persona is one of \<open>student\<close>, \<open>teacher\<close>, \<open>administrator\<close>;
  any other value is forwarded unchanged.
\<close>

theorem forwarded_persona_is_remapped:
  assumes "fst (get_user_persona_by_phone env sender_phone st) = Inr d"
  shows "(\<exists>es. trace (snd (after_read_receipt env value message message_type sender_phone st))
                = trace st @ es
              \<and> (forwarded_personas es = []
                   \<or> forwarded_personas es = [Some (PStr (remap_persona d))]))
       \<and> (d = ''professor'' \<longrightarrow> remap_persona d = ''teacher'')
       \<and> (d \<in> {''student'', ''professor'', ''teacher'', ''administrator''} \<longrightarrow>
            remap_persona d \<in> {''student'', ''teacher'', ''administrator''})
       \<and> (d \<noteq> ''professor'' \<longrightarrow> remap_persona d = d)"
proof (intro conjI)
  show "\<exists>es. trace (snd (after_read_receipt env value message message_type sender_phone st))
                = trace st @ es
              \<and> (forwarded_personas es = []
                   \<or> forwarded_personas es = [Some (PStr (remap_persona d))])"
    using assms by (rule after_read_receipt_trace)
qed (auto simp: remap_persona_def)

text \<open>The sample professor is presented as a teacher.\<close>

theorem forwarded_persona_is_remapped_witness:
  "fst (get_user_persona_by_phone (demo_env demo_directory (Inr PNone))
          (PStr ''+5511900000002'') start) = Inr ''professor''
   \<and> forwarded_personas (trace (snd (after_read_receipt (demo_env demo_directory (Inr PNone))
          (demo_value ''+5511900000002'') (demo_message ''+5511900000002'') (PStr ''text'')
          (PStr ''+5511900000002'') start))) = [Some (PStr ''teacher'')]
   \<and> remap_persona ''professor'' \<in> {''student'', ''teacher'', ''administrator''}"
proof -
  let ?env = "demo_env demo_directory (Inr PNone)"
  have d: "fst (get_user_persona_by_phone ?env (PStr ''+5511900000002'') start) = Inr ''professor''"
    by (simp add: get_user_persona_by_phone_def emit_def startswith_def demo_defs)
  note t = forwarded_persona_is_remapped [OF d, of "demo_value ''+5511900000002''"
      "demo_message ''+5511900000002''" "PStr ''text''"]
  have r: "remap_persona ''professor'' = ''teacher''"
    using t by blast
  have m: "remap_persona ''professor'' \<in> {''student'', ''teacher'', ''administrator''}"
    using t by blast
  have f: "forwarded_personas (trace (snd (after_read_receipt ?env
          (demo_value ''+5511900000002'') (demo_message ''+5511900000002'') (PStr ''text'')
          (PStr ''+5511900000002'') start))) = [Some (PStr ''teacher'')]"
    by (simp add: handler_defs session_defs demo_defs calendar_defs format_defs)
  from d f m show ?thesis by blast
qed

text \<open>
  The claim as stated fails: a message from the sample user whose persona attribute is
  \<open>guest\<close> reaches the runtime with the persona \<open>guest\<close>.
\<close>

theorem forwarded_persona_counterexample:
  "forwarded_personas (trace (snd (lambda_handler (demo_env demo_directory (Inr PNone))
      (PDict [(''Records'', PList [sns_record ''+5511900000004''])]) start)))
     = [Some (PStr ''guest'')]"
  by (simp add: handler_defs session_defs demo_defs calendar_defs format_defs)

section \<open>Required parameters of the entrypoint\<close>

lemma invoke_rejects_falsy:
  assumes "\<not> truthy (py_or (payload_get payload ''inputText'') (payload_get payload ''prompt''))
           \<or> \<not> truthy (payload_get payload ''persona'')
           \<or> \<not> truthy (payload_get payload ''user_id'')"
  shows "\<exists>msg. invoke env payload sid st = (Inl (Exception msg), st)"
  using assms by (auto simp: invoke_def Let_def)

text \<open>
  Claim C4. If \<open>inputText\<close> and \<open>prompt\<close> are both absent or empty, or \<open>persona\<close> is absent,
  or \<open>user_id\<close> is absent, then \<open>invoke\<close> raises an exception and the state is what it
  was: no event has been added to the trace, so no model has been called and no memory
  configuration has been constructed, and the caches are untouched.
\<close>

theorem invoke_rejects_incomplete_payload:
  assumes "((map_of payload ''inputText'' = None \<or> map_of payload ''inputText'' = Some (PStr []))
            \<and> (map_of payload ''prompt'' = None \<or> map_of payload ''prompt'' = Some (PStr [])))
           \<or> map_of payload ''persona'' = None
           \<or> map_of payload ''user_id'' = None"
  shows "\<exists>msg. invoke env payload sid st = (Inl (Exception msg), st)"
proof (rule invoke_rejects_falsy)
  from assms
  show "\<not> truthy (py_or (payload_get payload ''inputText'') (payload_get payload ''prompt''))
           \<or> \<not> truthy (payload_get payload ''persona'')
           \<or> \<not> truthy (payload_get payload ''user_id'')"
    by (auto simp: payload_get_def py_or_def)
qed

section \<open>Resolution of the memory id\<close>














lemmas runtime_demo_defs = demo_runtime_env_def runtime_start_def demo_payload_def
  base_tools_only_def

text \<open>A request without \<open>inputText\<close> and \<open>prompt\<close>.\<close>

theorem invoke_rejects_incomplete_payload_witness:
  "invoke (demo_runtime_env (Inr ''mem-1'') None (Inr []) base_tools_only)
     [(''persona'', PStr ''student''), (''user_id'', PStr ''5511900000003'')]
     (PStr ''whatsapp-5511900000003-2024-11-04-10-9f86d081'') runtime_start
   = (Inl (Exception ''Payload must include 'inputText' or 'prompt' parameter''), runtime_start)"
proof -
  let ?env = "demo_runtime_env (Inr ''mem-1'') None (Inr []) base_tools_only"
  let ?payload = "[(''persona'', PStr ''student''), (''user_id'', PStr ''5511900000003'')]"
  let ?sid = "PStr ''whatsapp-5511900000003-2024-11-04-10-9f86d081''"
  have h: "((map_of ?payload ''inputText'' = None \<or> map_of ?payload ''inputText'' = Some (PStr []))
            \<and> (map_of ?payload ''prompt'' = None \<or> map_of ?payload ''prompt'' = Some (PStr [])))
           \<or> map_of ?payload ''persona'' = None
           \<or> map_of ?payload ''user_id'' = None"
    by simp
  from invoke_rejects_incomplete_payload [OF h, of ?env ?sid runtime_start]
  obtain msg where m: "invoke ?env ?payload ?sid runtime_start = (Inl (Exception msg), runtime_start)" ..
  have "fst (invoke ?env ?payload ?sid runtime_start)
          = Inl (Exception ''Payload must include 'inputText' or 'prompt' parameter'')"
    by (simp add: invoke_def payload_get_def py_or_def)
  with m show ?thesis by simp
qed



section \<open>Tool assembly with fallback\<close>

lemma invocation_attempt_trace:
  "\<exists>es. trace (snd (invocation_attempt env tools query st)) = trace st @ NewAgent tools # es
        \<and> (es = [] \<or> es = [AgentCall tools query])
        \<and> (fst (new_agent env tools (world st)) = None \<longrightarrow> es = [AgentCall tools query])"
  by (auto simp: invocation_attempt_def emit_def Let_def split: prod.splits option.splits)

lemma attempt_with_gateway_tools_fails:
  assumes "(\<exists>e w. list_tools_sync env (world st) = (Inl e, w))
         \<or> (\<exists>ts w1 w2 e w3. list_tools_sync env (world st) = (Inr ts, w1)
               \<and> new_agent env (base_tools @ ts) w1 = (None, w2)
               \<and> call_agent env (base_tools @ ts) query w2 = (Inl e, w3))"
  shows "\<exists>e st1. attempt_with_gateway_tools env query st = (Inl e, st1)"
  using assms
  by (auto simp: attempt_with_gateway_tools_def invocation_attempt_def emit_def Let_def)

text \<open>
  The \<open>with\<close> statement. When the session is opened, the function runs the \<open>try\<close> statement
  and leaves the session; its outcome is the exception of leaving, if there is one, and the
  outcome of the \<open>try\<close> statement otherwise. When opening the session raises, nothing else
  is done and that exception is the outcome.
\<close>

lemma inside_gateway_session:
  assumes "persona \<in> PStr ` set valid_personas" and "sliceable query"
    and "mcp_enter env (world st) = (None, w0)"
    and "orchestrate_with_fallback env
           (contextualized_query env query persona persona_id phone)
           ((emit McpEnter st)\<lparr>world := w0\<rparr>) = (r, st2)"
  shows "fst (create_orchestrator_agent_runtime env query persona persona_id phone st)
           = (case fst (mcp_exit env (world st2)) of Some e' \<Rightarrow> Inl e' | None \<Rightarrow> r)"
    and "trace (snd (create_orchestrator_agent_runtime env query persona persona_id phone st))
           = trace st2 @ [McpExit]"
  using assms
  by (auto simp: create_orchestrator_agent_runtime_def emit_def Let_def
      split: prod.splits option.splits)

lemma session_entry_failure_propagates:
  assumes "persona \<in> PStr ` set valid_personas" and "sliceable query"
    and "mcp_enter env (world st) = (Some e, w0)"
  shows "create_orchestrator_agent_runtime env query persona persona_id phone st
           = (Inl e, st\<lparr>world := w0, trace := trace st @ [McpEnter]\<rparr>)"
  using assms
  by (simp add: create_orchestrator_agent_runtime_def emit_def Let_def)

text \<open>
  The fallback inside the session. Let the function reach the \<open>try\<close> statement: the persona
  is valid, the query can be logged, the gateway session is opened. Suppose that fetching
  the catalog raises, or that the catalog is fetched, the agent with the unioned tools is
  constructed, and its invocation raises. Then the attempt with the unioned tools ends in
  an exception \<open>e\<close>, and what follows is: \<open>e\<close> is logged; one agent is constructed with the
  fixed tools only and called at most once (exactly once when its construction succeeds);
  the gateway session is left; nothing else happens. The outcome of the function is the
  outcome of that one attempt (its response when it succeeds, its exception when it fails),
  unless leaving the session raises, which then is the outcome.
\<close>

lemma fallback_inside_gateway_session:
  assumes "persona \<in> PStr ` set valid_personas" and "sliceable query"
    and "mcp_enter env (world st) = (None, w0)"
    and "(\<exists>e w. list_tools_sync env w0 = (Inl e, w))
         \<or> (\<exists>ts w1 w2 e w3. list_tools_sync env w0 = (Inr ts, w1)
               \<and> new_agent env (base_tools @ ts) w1 = (None, w2)
               \<and> call_agent env (base_tools @ ts)
                     (contextualized_query env query persona persona_id phone) w2 = (Inl e, w3))"
  shows "\<exists>e st1 r st3 es.
           attempt_with_gateway_tools env (contextualized_query env query persona persona_id phone)
               ((emit McpEnter st)\<lparr>world := w0\<rparr>) = (Inl e, st1)
         \<and> invocation_attempt env base_tools
               (contextualized_query env query persona persona_id phone)
               (emit (PrintError ''create_orchestrator_agent_runtime'' e) st1) = (r, st3)
         \<and> fst (create_orchestrator_agent_runtime env query persona persona_id phone st)
             = (case fst (mcp_exit env (world st3)) of Some e' \<Rightarrow> Inl e' | None \<Rightarrow> r)
         \<and> trace (snd (create_orchestrator_agent_runtime env query persona persona_id phone st))
             = trace st1 @ [PrintError ''create_orchestrator_agent_runtime'' e, NewAgent base_tools]
                 @ es @ [McpExit]
         \<and> (es = [] \<or> es = [AgentCall base_tools
                                 (contextualized_query env query persona persona_id phone)])
         \<and> (fst (new_agent env base_tools (world st1)) = None \<longrightarrow>
               es = [AgentCall base_tools (contextualized_query env query persona persona_id phone)])"
proof -
  let ?cq = "contextualized_query env query persona persona_id phone"
  let ?st0 = "(emit McpEnter st)\<lparr>world := w0\<rparr>"
  have w: "world ?st0 = w0" by simp
  from assms(4) have "(\<exists>e w. list_tools_sync env (world ?st0) = (Inl e, w))
         \<or> (\<exists>ts w1 w2 e w3. list_tools_sync env (world ?st0) = (Inr ts, w1)
               \<and> new_agent env (base_tools @ ts) w1 = (None, w2)
               \<and> call_agent env (base_tools @ ts) ?cq w2 = (Inl e, w3))"
    by (simp only: w)
  then have "\<exists>e st1. attempt_with_gateway_tools env ?cq ?st0 = (Inl e, st1)"
    by (rule attempt_with_gateway_tools_fails)
  then obtain e st1 where a: "attempt_with_gateway_tools env ?cq ?st0 = (Inl e, st1)"
    by (elim exE)
  let ?st2 = "emit (PrintError ''create_orchestrator_agent_runtime'' e) st1"
  obtain r st3 where i: "invocation_attempt env base_tools ?cq ?st2 = (r, st3)"
    by (cases "invocation_attempt env base_tools ?cq ?st2")
  have o: "orchestrate_with_fallback env ?cq ?st0 = (r, st3)"
    by (simp add: orchestrate_with_fallback_def a i)
  from invocation_attempt_trace [of env base_tools ?cq ?st2] i
  obtain es where t: "trace st3 = trace ?st2 @ NewAgent base_tools # es"
    and e1: "es = [] \<or> es = [AgentCall base_tools ?cq]"
    and e2: "fst (new_agent env base_tools (world ?st2)) = None \<longrightarrow> es = [AgentCall base_tools ?cq]"
    by auto
  have f1: "fst (create_orchestrator_agent_runtime env query persona persona_id phone st)
      = (case fst (mcp_exit env (world st3)) of Some e' \<Rightarrow> Inl e' | None \<Rightarrow> r)"
    by (rule inside_gateway_session(1) [OF assms(1) assms(2) assms(3) o])
  have "trace (snd (create_orchestrator_agent_runtime env query persona persona_id phone st))
      = trace st3 @ [McpExit]"
    by (rule inside_gateway_session(2) [OF assms(1) assms(2) assms(3) o])
  then have f2: "trace (snd (create_orchestrator_agent_runtime env query persona persona_id phone st))
      = trace st1 @ [PrintError ''create_orchestrator_agent_runtime'' e, NewAgent base_tools]
          @ es @ [McpExit]"
    by (simp add: t emit_def)
  from e2 have f3: "fst (new_agent env base_tools (world st1)) = None \<longrightarrow>
      es = [AgentCall base_tools ?cq]"
    by (simp add: emit_def)
  show ?thesis
    by (rule exI [where x = e], rule exI [where x = st1], rule exI [where x = r],
        rule exI [where x = st3], rule exI [where x = es])
       (intro conjI a i f1 f2 e1 f3)
qed

text \<open>
  Two runs that end with the response of the fallback: the gateway does not answer the
  catalog request; the gateway lists a tool, and the invocation with the unioned tools
  raises.
\<close>

lemma fallback_inside_gateway_session_runs:
  "create_orchestrator_agent_runtime
         (demo_runtime_env (Inr ''mem-1'') None (Inl (ServiceError ''BadGateway'')) base_tools_only)
         (PStr ''Quais sao minhas tarefas?'') (PStr ''student'') (PStr ''5511900000003'')
         (PStr ''+5511900000003'') runtime_start
       = (Inr (Plain ''Suas tarefas pendentes''),
          runtime_start\<lparr>trace :=
            [McpEnter, McpListTools,
             PrintError ''create_orchestrator_agent_runtime'' (ServiceError ''BadGateway''),
             NewAgent base_tools,
             AgentCall base_tools
               (contextualized_query
                  (demo_runtime_env (Inr ''mem-1'') None (Inl (ServiceError ''BadGateway'')) base_tools_only)
                  (PStr ''Quais sao minhas tarefas?'') (PStr ''student'') (PStr ''5511900000003'')
                  (PStr ''+5511900000003'')),
             McpExit]\<rparr>)
   \<and> create_orchestrator_agent_runtime
         (demo_runtime_env (Inr ''mem-1'') None (Inr [RemoteTool ''send_whatsapp_message''])
            base_tools_only)
         (PStr ''Quais sao minhas tarefas?'') (PStr ''student'') (PStr ''5511900000003'')
         (PStr ''+5511900000003'') runtime_start
       = (Inr (Plain ''Suas tarefas pendentes''),
          runtime_start\<lparr>trace :=
            [McpEnter, McpListTools,
             NewAgent (base_tools @ [RemoteTool ''send_whatsapp_message'']),
             AgentCall (base_tools @ [RemoteTool ''send_whatsapp_message''])
               (contextualized_query
                  (demo_runtime_env (Inr ''mem-1'') None (Inr [RemoteTool ''send_whatsapp_message''])
                     base_tools_only)
                  (PStr ''Quais sao minhas tarefas?'') (PStr ''student'') (PStr ''5511900000003'')
                  (PStr ''+5511900000003'')),
             PrintError ''create_orchestrator_agent_runtime'' (ServiceError ''ValidationException''),
             NewAgent base_tools,
             AgentCall base_tools
               (contextualized_query
                  (demo_runtime_env (Inr ''mem-1'') None (Inr [RemoteTool ''send_whatsapp_message''])
                     base_tools_only)
                  (PStr ''Quais sao minhas tarefas?'') (PStr ''student'') (PStr ''5511900000003'')
                  (PStr ''+5511900000003'')),
             McpExit]\<rparr>)"
  by (simp add: create_orchestrator_agent_runtime_def orchestrate_with_fallback_def
      attempt_with_gateway_tools_def invocation_attempt_def emit_def valid_personas_def
      runtime_demo_defs)

text \<open>
  Claim C1. The claim asks for one attempt with the fixed tools whenever the catalog
  cannot be fetched from the gateway. The function does make that attempt when
  \<open>list_tools_sync\<close> or the invocation with the unioned tools raises; it does not when the
  gateway session itself cannot be opened, since \<open>with mcp_client\<close> stands outside \<open>try\<close>.
  Here is such a request: the persona is valid, the gateway cannot be reached, and an
  agent with the fixed tools would have answered. The function raises the gateway's
  exception; no agent is constructed and no model invocation is made.
\<close>

theorem gateway_unreachable_no_fallback:
  "create_orchestrator_agent_runtime gateway_unreachable
       (PStr ''Quais sao minhas tarefas?'') (PStr ''student'') (PStr ''5511900000003'')
       (PStr ''+5511900000003'') runtime_start
     = (Inl (ServiceError ''BadGateway''), runtime_start\<lparr>trace := [McpEnter]\<rparr>)
   \<and> fst (invocation_attempt gateway_unreachable base_tools
            (contextualized_query gateway_unreachable
               (PStr ''Quais sao minhas tarefas?'') (PStr ''student'') (PStr ''5511900000003'')
               (PStr ''+5511900000003''))
            runtime_start)
       = Inr (Plain ''Suas tarefas pendentes'')"
  by (simp add: create_orchestrator_agent_runtime_def invocation_attempt_def emit_def
      valid_personas_def gateway_unreachable_def runtime_demo_defs)

section \<open>Access control of the domain tools\<close>

text \<open>
  Claim C7. Called with a persona outside its allow-list, each domain tool returns its
  access-denial text, which names the personas allowed and the persona given; it does not
  raise, and the state is what it was: no mock data has been generated (no draw from the
  random source, no event) and no agent has been called.
\<close>

theorem tools_deny_outside_allow_list:
  "(persona \<noteq> ''administrator'' \<longrightarrow>
      answer_admin_questions env query persona st =
        (Inr (''Access denied: This tool is only available for administrator personas. ''
                @ ''Current persona: '' @ persona), st))
   \<and> (persona \<noteq> ''student'' \<and> persona \<noteq> ''administrator'' \<longrightarrow>
        answer_student_questions env query sid persona st =
          (Inr (''Access denied: This tool is only available for student and administrator ''
                  @ ''personas. Current persona: '' @ persona), st))
   \<and> (persona \<noteq> ''teacher'' \<and> persona \<noteq> ''administrator'' \<longrightarrow>
        answer_teacher_questions env query tid persona st =
          (Inr (''Access denied: This tool is only available for teacher and administrator ''
                  @ ''personas. Current persona: '' @ persona), st))"
  by (simp add: answer_admin_questions_def answer_student_questions_def
      answer_teacher_questions_def)

text \<open>A student asks the administrator tool and the teacher tool, a teacher the student tool.\<close>

theorem tools_deny_outside_allow_list_witness:
  "answer_admin_questions demo_tool_env ''Give me the operational report'' ''student'' tool_start
     = (Inr (''Access denied: This tool is only available for administrator personas. ''
               @ ''Current persona: student''), tool_start)
   \<and> answer_teacher_questions demo_tool_env ''Show my course metrics'' None ''student'' tool_start
     = (Inr (''Access denied: This tool is only available for teacher and administrator ''
               @ ''personas. Current persona: student''), tool_start)
   \<and> answer_student_questions demo_tool_env ''Show me my grades'' (Some ''STU-001'') ''teacher''
        tool_start
     = (Inr (''Access denied: This tool is only available for student and administrator ''
               @ ''personas. Current persona: teacher''), tool_start)"
  using tools_deny_outside_allow_list [where persona = "''student''" and env = demo_tool_env
      and st = tool_start and tid = None, of "''Give me the operational report''"]
    tools_deny_outside_allow_list [where persona = "''teacher''" and env = demo_tool_env
      and st = tool_start and sid = "Some ''STU-001''", of "''Show me my grades''"]
    tools_deny_outside_allow_list [where persona = "''student''" and env = demo_tool_env
      and st = tool_start and tid = None, of "''Show my course metrics''"]
  by simp

section \<open>Student data\<close>

text \<open>
  \<open>random()\<close> lies in \<open>[0, 1)\<close>, so \<open>uniform(a, b)\<close> lies between \<open>a\<close> and \<open>b\<close>, and rounding
  to a tenth does not leave an interval with whole-numbered ends.
\<close>

lemma random_unit_range:
  "0 \<le> fst (random_unit env w) \<and> fst (random_unit env w) < 1"
  by (simp add: random_unit_def split: prod.splits)

lemma uniform_range:
  assumes "a \<le> b"
  shows "a \<le> fst (uniform env a b w) \<and> fst (uniform env a b w) \<le> b"
proof -
  obtain u w1 where r: "random_unit env w = (u, w1)" by (cases "random_unit env w")
  with random_unit_range [of env w] have u: "0 \<le> u" "u < 1" by simp_all
  from assms u have "0 \<le> (b - a) * u" by simp
  moreover from assms u have "(b - a) * u \<le> (b - a) * 1"
    by (intro mult_left_mono) simp_all
  ultimately show ?thesis using r by (simp add: uniform_def)
qed

lemma round_half_even_lower: "of_int n \<le> y \<Longrightarrow> n \<le> round_half_even y"
proof -
  assume "of_int n \<le> y"
  then have "n \<le> \<lfloor>y\<rfloor>" by (simp add: le_floor_iff)
  then show ?thesis by (simp add: round_half_even_def)
qed

lemma round_half_even_upper: "y \<le> of_int n \<Longrightarrow> round_half_even y \<le> n"
proof (cases "y = of_int n")
  case True
  then show ?thesis by (simp add: round_half_even_def)
next
  case False
  assume "y \<le> of_int n"
  with False have "y < of_int n" by simp
  then have "\<lfloor>y\<rfloor> < n" by (simp add: floor_less_iff)
  then show ?thesis by (simp add: round_half_even_def)
qed

lemma py_round1_range:
  assumes "3 \<le> x" and "x \<le> 10"
  shows "3 \<le> py_round1 x \<and> py_round1 x \<le> 10"
proof -
  from assms have a: "of_int 30 \<le> x * 10" and b: "x * 10 \<le> of_int 100" by simp_all
  from a have "30 \<le> round_half_even (x * 10)" by (rule round_half_even_lower)
  then have l: "(of_int 30 :: rat) \<le> of_int (round_half_even (x * 10))"
    by (simp only: of_int_le_iff)
  from b have "round_half_even (x * 10) \<le> 100" by (rule round_half_even_upper)
  then have u: "(of_int (round_half_even (x * 10)) :: rat) \<le> of_int 100"
    by (simp only: of_int_le_iff)
  from l u show ?thesis by (simp add: py_round1_def)
qed


lemma courses_loop_invariant:
  assumes "courses_loop env i names (courses, gs, tasks, focus) w = ((courses', gs', tasks', focus'), w')"
    and "focus = map grade_course_name (filter (\<lambda>g. grade g < 5) gs)"
    and "map grade_course_name gs = map course_name courses"
    and "\<forall>g\<in>set gs. 3 \<le> grade g \<and> grade g \<le> 10"
  shows "focus' = map grade_course_name (filter (\<lambda>g. grade g < 5) gs')
       \<and> map grade_course_name gs' = map course_name courses'
       \<and> (\<forall>g\<in>set gs'. 3 \<le> grade g \<and> grade g \<le> 10)"
  using assms
proof (induction names arbitrary: i courses gs tasks focus w)
  case Nil
  then show ?case by auto
next
  case (Cons cname rest)
  obtain tname w1 where c: "choice env TEACHER_NAMES w = (tname, w1)"
    by (cases "choice env TEACHER_NAMES w")
  obtain x w2 where u: "uniform env 3 10 w1 = (x, w2)"
    by (cases "uniform env 3 10 w1")
  obtain num_tasks w3 where n: "randbelow env 4 w2 = (num_tasks, w3)"
    by (cases "randbelow env 4 w2")
  obtain tasks1 w4 where t: "tasks_loop env cname (make_course_id cname i) num_tasks tasks w3 = (tasks1, w4)"
    by (cases "tasks_loop env cname (make_course_id cname i) num_tasks tasks w3")
  let ?g = "\<lparr> grade_course_id = make_course_id cname i, grade_course_name = cname,
                grade = py_round1 x \<rparr>"
  let ?c = "\<lparr> course_id = make_course_id cname i, course_name = cname, teacher_name = tname \<rparr>"
  let ?focus = "if py_round1 x < 5 then focus @ [cname] else focus"
  from Cons.prems(1) c u n t
  have step: "courses_loop env (i + 1) rest (courses @ [?c], gs @ [?g], tasks1, ?focus) w4
      = ((courses', gs', tasks', focus'), w')"
    by simp
  from uniform_range [of 3 10 env w1] u have "3 \<le> x" "x \<le> 10" by simp_all
  then have r: "3 \<le> py_round1 x \<and> py_round1 x \<le> 10" by (rule py_round1_range)
  have a: "?focus = map grade_course_name (filter (\<lambda>g. grade g < 5) (gs @ [?g]))"
    using Cons.prems(2) by simp
  have b: "map grade_course_name (gs @ [?g]) = map course_name (courses @ [?c])"
    using Cons.prems(3) by simp
  have d: "\<forall>g\<in>set (gs @ [?g]). 3 \<le> grade g \<and> grade g \<le> 10"
    using Cons.prems(4) r by simp
  from Cons.IH [OF step a b d] show ?case .
qed

text \<open>
  Claim C10. In the student data that \<open>generate_student_data\<close> returns, whatever the random
  source yields: \<open>focus_areas\<close> is the list of the course names of the grades below 5, in
  the order of the grades; the grades are those of the enrolled courses, in enrollment
  order; and every grade lies between 3 and 10, hence on the scale from 0 to 10.
\<close>

theorem focus_areas_and_grade_range:
  "focus_areas (fst (generate_student_data env sid w))
     = map grade_course_name
         (filter (\<lambda>g. grade g < 5) (grades (fst (generate_student_data env sid w))))
   \<and> map grade_course_name (grades (fst (generate_student_data env sid w)))
     = map course_name (enrolled_courses (fst (generate_student_data env sid w)))
   \<and> (\<forall>g\<in>set (grades (fst (generate_student_data env sid w))).
        0 \<le> grade g \<and> 3 \<le> grade g \<and> grade g \<le> 10)"
proof -
  obtain sid1 w1 where s: "(case sid of
              None \<Rightarrow> (case randbelow env 999 w of (r, w0) \<Rightarrow> (''STU-'' @ zero_pad 3 (r + 1), w0))
            | Some s \<Rightarrow> (s, w)) = (sid1, w1)"
    by (cases "(case sid of
              None \<Rightarrow> (case randbelow env 999 w of (r, w0) \<Rightarrow> (''STU-'' @ zero_pad 3 (r + 1), w0))
            | Some s \<Rightarrow> (s, w))")
  obtain sname w2 where c: "choice env STUDENT_NAMES w1 = (sname, w2)"
    by (cases "choice env STUDENT_NAMES w1")
  obtain r w3 where n: "randbelow env 4 w2 = (r, w3)"
    by (cases "randbelow env 4 w2")
  obtain selected w4 where p: "sample env COURSE_NAMES (r + 3) w3 = (selected, w4)"
    by (cases "sample env COURSE_NAMES (r + 3) w3")
  obtain courses gs tasks focus w5
    where l: "courses_loop env 0 selected ([], [], [], []) w4 = ((courses, gs, tasks, focus), w5)"
    by (cases "courses_loop env 0 selected ([], [], [], []) w4") auto
  have g: "fst (generate_student_data env sid w)
      = \<lparr> student_id = sid1, student_name = sname, enrolled_courses = courses,
          pending_tasks = tasks, grades = gs, focus_areas = focus \<rparr>"
    by (simp add: generate_student_data_def s c n p l)
  from courses_loop_invariant [OF l]
  have "focus = map grade_course_name (filter (\<lambda>g. grade g < 5) gs)
       \<and> map grade_course_name gs = map course_name courses
       \<and> (\<forall>g\<in>set gs. 3 \<le> grade g \<and> grade g \<le> 10)"
    by simp
  then show ?thesis by (auto simp: g)
qed

text \<open>Unfolding rules to run the generator on the sample random source.\<close>

lemma floor_numeral_fraction: "\<lfloor>(numeral a :: rat) / numeral b\<rfloor> = numeral a div numeral b"
  using floor_divide_of_int_eq [of "numeral a" "numeral b", where 'a = rat] by simp

lemma sample_loop_numeral:
  "sample_loop env pool m (numeral k) w =
     (case randbelow env m w of
        (j, w1) \<Rightarrow>
          (case sample_loop env (pool[j := pool ! (m - 1)]) (m - 1) (pred_numeral k) w1 of
             (rest, w2) \<Rightarrow> (pool ! j # rest, w2)))"
  by (simp add: numeral_eq_Suc)

lemmas random_defs = choice_def randbelow_def uniform_def random_unit_def sample_def
  sample_loop_numeral make_course_id_def upper_char_def py_round1_def round_half_even_def
  floor_numeral_fraction STUDENT_NAMES_def TEACHER_NAMES_def COURSE_NAMES_def

lemma demo_sample:
  "sample demo_random COURSE_NAMES 3 2 = ([''Physical Education'', ''Biology'', ''Literature''], 5)"
  by (simp add: random_defs demo_random_def)

lemma demo_courses_loop:
  "courses_loop demo_random 0 [''Physical Education'', ''Biology'', ''Literature'']
      ([], [], [], []) 5
   = (([\<lparr>course_id = ''PHYS-100'', course_name = ''Physical Education'', teacher_name = ''Prof. Silva''\<rparr>,
        \<lparr>course_id = ''BIOL-101'', course_name = ''Biology'', teacher_name = ''Prof. Silva''\<rparr>,
        \<lparr>course_id = ''LITE-102'', course_name = ''Literature'', teacher_name = ''Prof. Silva''\<rparr>],
       [\<lparr>grade_course_id = ''PHYS-100'', grade_course_name = ''Physical Education'', grade = 41 / 5\<rparr>,
        \<lparr>grade_course_id = ''BIOL-101'', grade_course_name = ''Biology'', grade = 39 / 10\<rparr>,
        \<lparr>grade_course_id = ''LITE-102'', grade_course_name = ''Literature'', grade = 13 / 2\<rparr>],
       [], [''Biology'']), 14)"
  by (simp add: random_defs demo_random_def format_defs)

lemma demo_student_data:
  "fst (generate_student_data demo_random (Some ''STU-001'') 0) =
  \<lparr> student_id = ''STU-001'', student_name = ''Jo'' @ [CHR 0xE3] @ ''o Silva'',
    enrolled_courses =
      [\<lparr>course_id = ''PHYS-100'', course_name = ''Physical Education'', teacher_name = ''Prof. Silva''\<rparr>,
       \<lparr>course_id = ''BIOL-101'', course_name = ''Biology'', teacher_name = ''Prof. Silva''\<rparr>,
       \<lparr>course_id = ''LITE-102'', course_name = ''Literature'', teacher_name = ''Prof. Silva''\<rparr>],
    pending_tasks = [],
    grades =
      [\<lparr>grade_course_id = ''PHYS-100'', grade_course_name = ''Physical Education'', grade = 41 / 5\<rparr>,
       \<lparr>grade_course_id = ''BIOL-101'', grade_course_name = ''Biology'', grade = 39 / 10\<rparr>,
       \<lparr>grade_course_id = ''LITE-102'', grade_course_name = ''Literature'', grade = 13 / 2\<rparr>],
    focus_areas = [''Biology''] \<rparr>"
proof -
  have c: "choice demo_random STUDENT_NAMES 0 = (''Jo'' @ [CHR 0xE3] @ ''o Silva'', 1)"
    by (simp add: choice_def randbelow_def demo_random_def STUDENT_NAMES_def)
  have r: "randbelow demo_random 4 (Suc 0) = (0, 2)"
    by (simp add: randbelow_def demo_random_def)
  show ?thesis
    by (simp add: generate_student_data_def c r demo_sample demo_courses_loop
          del: courses_loop.simps)
qed

text \<open>
  The sample random source gives three courses with the grades 8.2 (from 8.25, a tie
  rounded to the even tenth), 3.9 and 6.5; the one below 5 is the focus area.
\<close>

theorem focus_areas_and_grade_range_witness:
  "focus_areas (fst (generate_student_data demo_random (Some ''STU-001'') 0)) = [''Biology'']
   \<and> map course_name (enrolled_courses (fst (generate_student_data demo_random (Some ''STU-001'') 0)))
       = [''Physical Education'', ''Biology'', ''Literature'']
   \<and> map grade (grades (fst (generate_student_data demo_random (Some ''STU-001'') 0)))
       = [41 / 5, 39 / 10, 13 / 2]"
  using focus_areas_and_grade_range [of demo_random "Some ''STU-001''" 0]
  by (simp add: demo_student_data)

end
